theory Spec2Isabelle
  imports Main "HOL-Library.Multiset" "HOL-Library.FSet"
begin

section \<open>Store, transport and failures\<close>

text \<open>
  The backend keeps its rows in a relational store (reached through Prisma) and pushes
  events through one process-wide Socket.IO server.  Every asynchronous call of the source
  either resolves or rejects; a rejection is a value here, and the world after the call is
  returned next to it, since a row written before a later step throws stays written.
\<close>

datatype failure = StoreFailure | SocketNotInitialized | InvalidInput

datatype 'a outcome = Resolved 'a | Rejected failure

datatype NotificationType = LIKE | COMMENT | FOLLOW | REPLY | BUG_STATUS_UPDATE

text \<open>\<^verbatim>\<open>interface NotificationData\<close> of the notification service.\<close>

record NotificationData =
  recipientId :: string
  senderId :: string
  ntype :: NotificationType
  snippetId :: "string option"
  docId :: "string option"
  bugId :: "string option"
  commentId :: "string option"

text \<open>A row of table \<^verbatim>\<open>notifications\<close>: the data plus the columns the store fills in.\<close>

record Notification = NotificationData +
  notif_id :: string
  read :: bool
  notif_createdAt :: int

text \<open>A row of table \<^verbatim>\<open>follows\<close>; the pair of its columns carries a unique index.\<close>

record Follow =
  followerId :: string
  followingId :: string

text \<open>Rows of tables \<^verbatim>\<open>likes\<close> and \<^verbatim>\<open>bookmarks\<close>, kept with the item they belong to.\<close>

record Like =
  like_id :: string
  like_userId :: string

record Bookmark =
  bookmark_id :: string
  bookmark_userId :: string

text \<open>
  The columns the three content tables share, with the relations the feed reads: the
  like and bookmark rows of the item and the number of its comments.  Timestamps are
  milliseconds since the epoch, what \<^verbatim>\<open>Date.getTime()\<close> returns.
\<close>

record Content =
  id :: string
  authorId :: string
  createdAt :: int
  likes :: "Like list"
  bookmarks :: "Bookmark list"
  comments :: nat

text \<open>
  Snippets and docs carry \<^verbatim>\<open>isPublic\<close>; bugs carry \<^verbatim>\<open>expiresAt\<close> and a status.
\<close>

record PublicContent = Content +
  isPublic :: bool

datatype BugStatus = OPEN | IN_PROGRESS | RESOLVED | CLOSED

record Bug = Content +
  expiresAt :: int
  status :: BugStatus

datatype payload = NotificationRow Notification | ContentRow string

text \<open>One \<^verbatim>\<open>io.to(room).emit(eventName, payload)\<close>.\<close>

record emission =
  room :: string
  eventName :: string
  body :: payload

text \<open>
  \<open>store_ok\<close> tells whether the store's operations resolve (\<open>False\<close> stands for any
  rejection: lost connection, violated constraint).  \<open>io\<close> is the module variable of the
  socket module, \<open>None\<close> until \<^verbatim>\<open>initializeSocket\<close> has run, and otherwise the
  emissions made so far, oldest first.  \<open>console\<close> collects the \<^verbatim>\<open>console.error\<close> lines.
  The queries of the source order by \<^verbatim>\<open>createdAt\<close> alone, so the order in which the store
  returns rows of equal \<^verbatim>\<open>createdAt\<close> is the store's own: \<open>tie_rank\<close> is that choice, a rank
  on row ids about which nothing is assumed.
\<close>

record world =
  follows :: "Follow list"
  notifications :: "Notification list"
  snippets :: "PublicContent list"
  docs :: "PublicContent list"
  bugs :: "Bug list"
  store_ok :: bool
  tie_rank :: "string \<Rightarrow> nat"
  io :: "emission list option"
  console :: "string list"

definition getIO :: "world \<Rightarrow> emission list outcome" where
  "getIO w = (case io w of None \<Rightarrow> Rejected SocketNotInitialized | Some es \<Rightarrow> Resolved es)"

definition emit :: "string \<Rightarrow> string \<Rightarrow> payload \<Rightarrow> world \<Rightarrow> world" where
  "emit r ev p w =
     w\<lparr>io := map_option (\<lambda>es. es @ [\<lparr>room = r, eventName = ev, body = p\<rparr>]) (io w)\<rparr>"

definition console_error :: "string \<Rightarrow> world \<Rightarrow> world" where
  "console_error msg w = w\<lparr>console := console w @ [msg]\<rparr>"

section \<open>Notification engine\<close>

definition notification_create ::
  "NotificationData \<Rightarrow> string \<Rightarrow> int \<Rightarrow> world \<Rightarrow> Notification outcome \<times> world" where
  "notification_create d new_id now w =
     (if store_ok w then
        (let n = \<lparr>recipientId = recipientId d, senderId = senderId d, ntype = ntype d,
                  snippetId = snippetId d, docId = docId d, bugId = bugId d,
                  commentId = commentId d,
                  notif_id = new_id, read = False, notif_createdAt = now\<rparr>
         in (Resolved n, w\<lparr>notifications := notifications w @ [n]\<rparr>))
      else (Rejected StoreFailure, w))"

text \<open>
  \<^verbatim>\<open>createNotification(data)\<close>.  The id and the creation time of the new row are the
  store's defaults, passed in here; the sender's display fields, which the insert reads
  back for the toast, are left out.  There is no \<^verbatim>\<open>try\<close> in the source: a rejection of
  the insert, or \<^verbatim>\<open>getIO\<close> throwing, rejects the call.
\<close>

definition createNotification ::
  "NotificationData \<Rightarrow> string \<Rightarrow> int \<Rightarrow> world \<Rightarrow> unit outcome \<times> world" where
  "createNotification d new_id now w =
     (if recipientId d = senderId d then (Resolved (), w)
      else
        (case notification_create d new_id now w of
           (Rejected e, w1) \<Rightarrow> (Rejected e, w1)
         | (Resolved n, w1) \<Rightarrow>
             (case getIO w1 of
                Rejected e \<Rightarrow> (Rejected e, w1)
              | Resolved _ \<Rightarrow>
                  (Resolved (), emit (recipientId d) ''new_notification'' (NotificationRow n) w1))))"

definition notification_updateMany ::
  "(Notification \<Rightarrow> bool) \<Rightarrow> (Notification \<Rightarrow> Notification) \<Rightarrow> world \<Rightarrow> unit outcome \<times> world" where
  "notification_updateMany whr upd w =
     (if store_ok w then
        (Resolved (), w\<lparr>notifications := map (\<lambda>n. if whr n then upd n else n) (notifications w)\<rparr>)
      else (Rejected StoreFailure, w))"

text \<open>\<^verbatim>\<open>markNotificationsAsRead(userId, notificationIds?)\<close>; \<open>None\<close> is the omitted argument.\<close>

definition markNotificationsAsRead ::
  "string \<Rightarrow> string list option \<Rightarrow> world \<Rightarrow> unit outcome \<times> world" where
  "markNotificationsAsRead userId notificationIds w =
     (let whr =
        (case notificationIds of
           None \<Rightarrow> (\<lambda>n. recipientId n = userId)
         | Some ids \<Rightarrow>
             if length ids > 0 then (\<lambda>n. recipientId n = userId \<and> notif_id n \<in> set ids)
             else (\<lambda>n. recipientId n = userId))
      in notification_updateMany whr (\<lambda>n. n\<lparr>read := True\<rparr>) w)"

definition getUnreadNotificationCount :: "string \<Rightarrow> world \<Rightarrow> nat outcome" where
  "getUnreadNotificationCount userId w =
     (if store_ok w then
        Resolved (length (filter (\<lambda>n. recipientId n = userId \<and> read n = False) (notifications w)))
      else Rejected StoreFailure)"

section \<open>Fan-out dispatcher\<close>

definition follow_findMany :: "(Follow \<Rightarrow> bool) \<Rightarrow> world \<Rightarrow> Follow list outcome" where
  "follow_findMany whr w =
     (if store_ok w then Resolved (filter whr (follows w)) else Rejected StoreFailure)"

text \<open>The message of the \<^verbatim>\<open>console.error\<close> call in \<^verbatim>\<open>emitToFollowers\<close>.\<close>

definition emit_error_message :: "string \<Rightarrow> string \<Rightarrow> string" where
  "emit_error_message ev author =
     ''Error emitting event '' @ [CHR 0x27] @ ev @ [CHR 0x27] @ '' to followers of '' @ author @ '':''"

text \<open>
  \<^verbatim>\<open>emitToFollowers(authorId, eventName, payload)\<close> (\<open>author\<close> is the source's
  \<^verbatim>\<open>authorId\<close>): the whole body sits in a
  \<^verbatim>\<open>try\<close> whose handler logs, so the call always resolves.
\<close>

definition emitToFollowers :: "string \<Rightarrow> string \<Rightarrow> payload \<Rightarrow> world \<Rightarrow> world" where
  "emitToFollowers author ev p w =
     (case follow_findMany (\<lambda>f. followingId f = author) w of
        Rejected e \<Rightarrow> console_error (emit_error_message ev author) w
      | Resolved followers \<Rightarrow>
          (case getIO w of
             Rejected e \<Rightarrow> console_error (emit_error_message ev author) w
           | Resolved _ \<Rightarrow>
               emit author ev p
                 (foldl (\<lambda>w' f. emit (followerId f) ev p w') w followers)))"

section \<open>Numbers of the feed\<close>

text \<open>
  \<^verbatim>\<open>parseInt(req.query.page) || 1\<close>: the parsed query value is \<open>None\<close> when
  \<^verbatim>\<open>parseInt\<close> gives \<^verbatim>\<open>NaN\<close>; \<^verbatim>\<open>NaN\<close> and \<^verbatim>\<open>0\<close> are falsy and give the default.
\<close>

definition or_default :: "int option \<Rightarrow> int \<Rightarrow> int" where
  "or_default q d = (case q of None \<Rightarrow> d | Some n \<Rightarrow> if n = 0 then d else n)"

text \<open>
  The quotas are computed in binary64 arithmetic: \<^verbatim>\<open>Math.ceil(limit * 0.7)\<close>.  A
  binary64 constant is a significand \<open>m\<close> and a scale \<open>s\<close>, its value \<open>m / 2 ^ s\<close>; the
  literals \<^verbatim>\<open>0.7\<close>, \<^verbatim>\<open>0.2\<close>, \<^verbatim>\<open>0.1\<close> denote the doubles nearest to them.
\<close>

type_synonym binary64_const = "nat \<times> nat"

definition lit_0_7 :: binary64_const where
  "lit_0_7 = (3152519739159347, 52)"

definition lit_0_2 :: binary64_const where
  "lit_0_2 = (3602879701896397, 54)"

definition lit_0_1 :: binary64_const where
  "lit_0_1 = (3602879701896397, 55)"

fun bit_length :: "nat \<Rightarrow> nat" where
  "bit_length n = (if n = 0 then 0 else Suc (bit_length (n div 2)))"

declare bit_length.simps [simp del]

text \<open>\<open>n / 2 ^ k\<close> rounded to the nearest integer, a tie going to the even neighbour.\<close>

definition round_ties_even :: "nat \<Rightarrow> nat \<Rightarrow> nat" where
  "round_ties_even n k =
     (let q = n div 2 ^ k; r = n mod 2 ^ k in
      if 2 * r < 2 ^ k then q
      else if 2 * r > 2 ^ k then q + 1
      else if even q then q else q + 1)"

text \<open>The nearest natural number with a significand of at most 53 bits.\<close>

definition round53 :: "nat \<Rightarrow> nat" where
  "round53 n =
     (let b = bit_length n in
      if b \<le> 53 then n else round_ties_even n (b - 53) * 2 ^ (b - 53))"

text \<open>
  \<^verbatim>\<open>limit * c\<close> for an integer \<open>limit\<close> and a constant \<open>c = (m, s)\<close>: the exact product
  \<open>limit * m / 2 ^ s\<close> rounded to binary64; the result is the signed significand over
  the same scale.  \<^verbatim>\<open>Math.ceil\<close> of such a value is an integer.
\<close>

definition js_times :: "int \<Rightarrow> binary64_const \<Rightarrow> int \<times> nat" where
  "js_times l c = (sgn l * int (round53 (nat \<bar>l\<bar> * fst c)), snd c)"

definition Math_ceil :: "int \<times> nat \<Rightarrow> int" where
  "Math_ceil v = - ((- fst v) div 2 ^ snd v)"

text \<open>\<^verbatim>\<open>Array.prototype.slice(start, end)\<close> on integer arguments.\<close>

definition slice :: "int \<Rightarrow> int \<Rightarrow> 'a list \<Rightarrow> 'a list" where
  "slice start fin xs =
     (let len = int (length xs);
          k = (if start < 0 then max (len + start) 0 else min start len);
          final = (if fin < 0 then max (len + fin) 0 else min fin len)
      in take (nat (final - k)) (drop (nat k) xs))"

text \<open>
  \<^verbatim>\<open>Array.prototype.sort(compare)\<close>: a stable sort; an element goes before the first
  later element it does not compare greater than.
\<close>

fun insert_sorted :: "('a \<Rightarrow> 'a \<Rightarrow> int) \<Rightarrow> 'a \<Rightarrow> 'a list \<Rightarrow> 'a list" where
  "insert_sorted cmp x [] = [x]"
| "insert_sorted cmp x (y # ys) =
     (if cmp x y \<le> 0 then x # y # ys else y # insert_sorted cmp x ys)"

definition Array_sort :: "('a \<Rightarrow> 'a \<Rightarrow> int) \<Rightarrow> 'a list \<Rightarrow> 'a list" where
  "Array_sort cmp xs = foldr (insert_sorted cmp) xs []"

section \<open>Content queries\<close>

text \<open>
  \<^verbatim>\<open>findMany({where, orderBy: {createdAt: 'desc'}, take, skip})\<close>: filter, order, skip,
  take.  Rows of equal \<^verbatim>\<open>createdAt\<close> come in the order of the store's rank.  A negative
  \<^verbatim>\<open>take\<close> selects from the end of the ordered rows.
\<close>

definition paginate :: "int \<Rightarrow> nat \<Rightarrow> 'a list \<Rightarrow> 'a list" where
  "paginate tk sk xs =
     (if 0 \<le> tk then take (nat tk) (drop sk xs)
      else rev (take (nat (- tk)) (drop sk (rev xs))))"

definition findMany ::
  "('a Content_scheme \<Rightarrow> bool) \<Rightarrow> (string \<Rightarrow> nat) \<Rightarrow> int \<Rightarrow> nat \<Rightarrow> 'a Content_scheme list
     \<Rightarrow> 'a Content_scheme list" where
  "findMany whr rank tk sk table =
     paginate tk sk
       (sort_key (\<lambda>r. - createdAt r) (sort_key (\<lambda>r. rank (id r)) (filter whr table)))"

text \<open>
  The query engine takes \<^verbatim>\<open>take\<close> and \<^verbatim>\<open>skip\<close> as signed 64-bit integers and refuses a
  number outside that range, as it refuses a negative \<^verbatim>\<open>skip\<close>.
\<close>

definition fits_int64 :: "int \<Rightarrow> bool" where
  "fits_int64 n = (- (2 ^ 63) \<le> n \<and> n < 2 ^ 63)"

text \<open>The \<^verbatim>\<open>_count\<close> object of a query result.\<close>

record counts =
  count_likes :: nat
  count_comments :: nat
  count_bookmarks :: nat

text \<open>
  A query result: the row with its \<^verbatim>\<open>_count\<close>, and, for a query that includes them,
  the ids of the viewer's own like and bookmark rows.  The author's display fields, which
  every query of the feed also includes, are left out.
\<close>

record 'r counted =
  row :: 'r
  x_count :: counts

record 'r selected = "'r counted" +
  own_likes :: "string list"
  own_bookmarks :: "string list"

definition count_of :: "'a Content_scheme \<Rightarrow> counts" where
  "count_of r =
     \<lparr>count_likes = length (likes r), count_comments = comments r,
      count_bookmarks = length (bookmarks r)\<rparr>"

definition include_own :: "string \<Rightarrow> 'a Content_scheme \<Rightarrow> 'a Content_scheme selected" where
  "include_own userId r =
     \<lparr>row = r, x_count = count_of r,
      own_likes = map like_id (filter (\<lambda>l. like_userId l = userId) (likes r)),
      own_bookmarks = map bookmark_id (filter (\<lambda>b. bookmark_userId b = userId) (bookmarks r))\<rparr>"

definition include_counts :: "'a Content_scheme \<Rightarrow> 'a Content_scheme counted" where
  "include_counts r = \<lparr>row = r, x_count = count_of r\<rparr>"

definition snippet_findMany ::
  "(PublicContent \<Rightarrow> bool) \<Rightarrow> (PublicContent \<Rightarrow> 'b) \<Rightarrow> int \<Rightarrow> int
     \<Rightarrow> world \<Rightarrow> 'b list outcome" where
  "snippet_findMany whr incl tk sk w =
     (if store_ok w \<and> fits_int64 tk \<and> fits_int64 sk \<and> 0 \<le> sk
      then Resolved (map incl (findMany whr (tie_rank w) tk (nat sk) (snippets w)))
      else Rejected StoreFailure)"

definition doc_findMany ::
  "(PublicContent \<Rightarrow> bool) \<Rightarrow> (PublicContent \<Rightarrow> 'b) \<Rightarrow> int \<Rightarrow> int
     \<Rightarrow> world \<Rightarrow> 'b list outcome" where
  "doc_findMany whr incl tk sk w =
     (if store_ok w \<and> fits_int64 tk \<and> fits_int64 sk \<and> 0 \<le> sk
      then Resolved (map incl (findMany whr (tie_rank w) tk (nat sk) (docs w)))
      else Rejected StoreFailure)"

definition bug_findMany ::
  "(Bug \<Rightarrow> bool) \<Rightarrow> (Bug \<Rightarrow> 'b) \<Rightarrow> int \<Rightarrow> int
     \<Rightarrow> world \<Rightarrow> 'b list outcome" where
  "bug_findMany whr incl tk sk w =
     (if store_ok w \<and> fits_int64 tk \<and> fits_int64 sk \<and> 0 \<le> sk
      then Resolved (map incl (findMany whr (tie_rank w) tk (nat sk) (bugs w)))
      else Rejected StoreFailure)"

text \<open>\<^verbatim>\<open>Promise.all\<close> of three queries: the first rejection, or the three results.\<close>

definition Promise_all :: "'a outcome \<Rightarrow> 'b outcome \<Rightarrow> 'c outcome \<Rightarrow> ('a \<times> 'b \<times> 'c) outcome" where
  "Promise_all a b c =
     (case a of Rejected e \<Rightarrow> Rejected e
      | Resolved x \<Rightarrow>
          (case b of Rejected e \<Rightarrow> Rejected e
           | Resolved y \<Rightarrow>
               (case c of Rejected e \<Rightarrow> Rejected e | Resolved z \<Rightarrow> Resolved (x, y, z))))"

section \<open>Feed aggregator\<close>

datatype kind = snippet | doc | bug

datatype entity = SnippetRow PublicContent | DocRow PublicContent | BugRow Bug

text \<open>
  \<^verbatim>\<open>type FeedItem\<close>: the spread row, its type tag, the counts, and the two flags; a flag
  is \<open>None\<close> where the object has no such key (the items of the public feed).
\<close>

record FeedItem =
  entity :: entity
  type :: kind
  isLiked :: "bool option"
  isBookmarked :: "bool option"
  likesCount :: nat
  commentsCount :: nat
  bookmarksCount :: nat

definition item_createdAt :: "FeedItem \<Rightarrow> int" where
  "item_createdAt i =
     (case entity i of SnippetRow r \<Rightarrow> createdAt r | DocRow r \<Rightarrow> createdAt r
      | BugRow r \<Rightarrow> createdAt r)"

text \<open>The mapping of a personalised query result to a feed item, by kind.\<close>

definition to_item :: "('r \<Rightarrow> entity) \<Rightarrow> kind \<Rightarrow> 'r selected \<Rightarrow> FeedItem" where
  "to_item wrap k s =
     \<lparr>entity = wrap (row s), type = k,
      isLiked = Some (length (own_likes s) > 0),
      isBookmarked = Some (length (own_bookmarks s) > 0),
      likesCount = count_likes (x_count s),
      commentsCount = count_comments (x_count s),
      bookmarksCount = count_bookmarks (x_count s)\<rparr>"

text \<open>The mapping of a public query result: no flags.\<close>

definition to_public_item :: "PublicContent counted \<Rightarrow> FeedItem" where
  "to_public_item s =
     \<lparr>entity = SnippetRow (row s), type = snippet,
      isLiked = None, isBookmarked = None,
      likesCount = count_likes (x_count s),
      commentsCount = count_comments (x_count s),
      bookmarksCount = count_bookmarks (x_count s)\<rparr>"

text \<open>The comparator \<^verbatim>\<open>(a, b) => getTime(b.createdAt) - getTime(a.createdAt)\<close>.\<close>

definition newest_first :: "FeedItem \<Rightarrow> FeedItem \<Rightarrow> int" where
  "newest_first a b = item_createdAt b - item_createdAt a"

record FeedResponse =
  data :: "FeedItem list"
  total :: nat
  page :: int
  hasMore :: bool

datatype reply = Json FeedResponse | Status500

text \<open>The three candidate queries of \<^verbatim>\<open>getFeed\<close>, with their quotas.\<close>

definition feed_queries ::
  "string \<Rightarrow> string list \<Rightarrow> int \<Rightarrow> int \<Rightarrow> world
     \<Rightarrow> (PublicContent selected list \<times> PublicContent selected list \<times> Bug selected list) outcome" where
  "feed_queries userId followingIds limit now w =
     Promise_all
       (snippet_findMany (\<lambda>r. authorId r \<in> set followingIds \<and> isPublic r)
          (include_own userId) (Math_ceil (js_times limit lit_0_7)) 0 w)
       (doc_findMany (\<lambda>r. authorId r \<in> set followingIds \<and> isPublic r)
          (include_own userId) (Math_ceil (js_times limit lit_0_2)) 0 w)
       (bug_findMany (\<lambda>r. authorId r \<in> set followingIds \<and> expiresAt r > now)
          (include_own userId) (Math_ceil (js_times limit lit_0_1)) 0 w)"

text \<open>The array \<^verbatim>\<open>feedItems\<close> before it is sorted.\<close>

definition feedItems_of ::
  "PublicContent selected list \<times> PublicContent selected list \<times> Bug selected list \<Rightarrow> FeedItem list" where
  "feedItems_of q =
     (case q of (ss, ds, bs) \<Rightarrow>
        map (to_item SnippetRow snippet) ss @ map (to_item DocRow doc) ds
          @ map (to_item BugRow bug) bs)"

text \<open>
  The first half of \<^verbatim>\<open>getFeed\<close>: the ids of the followed authors with the viewer's
  own id pushed last, the three queries, and the sorted array \<^verbatim>\<open>feedItems\<close>.
\<close>

definition sorted_feedItems :: "string \<Rightarrow> int \<Rightarrow> int \<Rightarrow> world \<Rightarrow> FeedItem list outcome" where
  "sorted_feedItems userId limit now w =
     (case follow_findMany (\<lambda>f. followerId f = userId) w of
        Rejected e \<Rightarrow> Rejected e
      | Resolved following \<Rightarrow>
          (let followingIds = map followingId following @ [userId] in
           case feed_queries userId followingIds limit now w of
             Rejected e \<Rightarrow> Rejected e
           | Resolved q \<Rightarrow> Resolved (Array_sort newest_first (feedItems_of q))))"

text \<open>
  \<^verbatim>\<open>getFeed\<close>.  \<open>page_query\<close> and \<open>limit_query\<close> are the parsed query parameters and
  \<open>now\<close> is \<^verbatim>\<open>new Date()\<close>.  Any rejection inside lands in the handler's \<^verbatim>\<open>catch\<close>,
  which answers with status 500.
\<close>

definition getFeed :: "string \<Rightarrow> int option \<Rightarrow> int option \<Rightarrow> int \<Rightarrow> world \<Rightarrow> reply" where
  "getFeed userId page_query limit_query now w =
     (let page = or_default page_query 1;
          limit = or_default limit_query 10;
          skip = (page - 1) * limit
      in
      case sorted_feedItems userId limit now w of
        Rejected e \<Rightarrow> Status500
      | Resolved feedItems \<Rightarrow>
          (let paginatedItems = slice skip (skip + limit) feedItems in
           if length feedItems = 0 \<and> page = 1 then
             (case snippet_findMany (\<lambda>r. isPublic r) include_counts limit skip w of
                Rejected e \<Rightarrow> Status500
              | Resolved publicSnippets \<Rightarrow>
                  (let publicFeedItems = map to_public_item publicSnippets in
                   Json \<lparr>data = publicFeedItems, total = length publicFeedItems,
                         page = page,
                         hasMore = (int (length publicSnippets) = limit)\<rparr>))
           else
             Json \<lparr>data = paginatedItems, total = length feedItems, page = page,
                   hasMore = (int (length feedItems) > skip + limit)\<rparr>))"

section \<open>Write operations that trigger fan-out or a notification\<close>











section \<open>Subscription registry\<close>

text \<open>
  Modelled from the spec: the real-time transport (the rooms of the Socket.IO server) is
  a library outside the repository; the source only calls \<^verbatim>\<open>socket.join\<close>,
  \<^verbatim>\<open>socket.leave\<close> and \<^verbatim>\<open>io.to(room).emit\<close>.  In the spec's words a subscription
  membership is a (connectionId, topicId) pair, created on join, destroyed on leave or on
  connection loss, and a publish is delivered once to each connection joined at that time.
\<close>

type_synonym registry = "(string \<times> string) fset"

definition join :: "string \<Rightarrow> string \<Rightarrow> registry \<Rightarrow> registry" where
  "join conn topic reg = finsert (conn, topic) reg"

definition leave :: "string \<Rightarrow> string \<Rightarrow> registry \<Rightarrow> registry" where
  "leave conn topic reg = reg |-| {|(conn, topic)|}"

definition leaveAll :: "string \<Rightarrow> registry \<Rightarrow> registry" where
  "leaveAll conn reg = ffilter (\<lambda>m. fst m \<noteq> conn) reg"

definition members :: "string \<Rightarrow> registry \<Rightarrow> string fset" where
  "members topic reg = fst |`| ffilter (\<lambda>m. snd m = topic) reg"

text \<open>The messages a publish delivers, each with the connection that receives it.\<close>

definition publish :: "string \<Rightarrow> string \<Rightarrow> payload \<Rightarrow> registry \<Rightarrow> (string \<times> string \<times> payload) multiset" where
  "publish topic ev p reg = image_mset (\<lambda>c. (c, ev, p)) (mset_set (fset (members topic reg)))"

text \<open>
  The handlers \<^verbatim>\<open>initializeSocket\<close> registers on a connection (from the source): each
  acts only on a truthy argument, and a string is truthy when it is not empty.
\<close>

definition on_join_user_room :: "string \<Rightarrow> string \<Rightarrow> registry \<Rightarrow> registry" where
  "on_join_user_room socket userId reg = (if userId \<noteq> [] then join socket userId reg else reg)"

definition on_join_content_room :: "string \<Rightarrow> string \<Rightarrow> registry \<Rightarrow> registry" where
  "on_join_content_room socket contentId reg =
     (if contentId \<noteq> [] then join socket contentId reg else reg)"

definition on_leave_content_room :: "string \<Rightarrow> string \<Rightarrow> registry \<Rightarrow> registry" where
  "on_leave_content_room socket contentId reg =
     (if contentId \<noteq> [] then leave socket contentId reg else reg)"

section \<open>Example data\<close>

text \<open>
  A small store used to run the operations: author \<open>u\<close> is followed by \<open>a\<close> and \<open>b\<close>,
  user \<open>c\<close> follows nobody, and \<open>u\<close> owns a public snippet, a public doc, an active bug
  and a bug that expired before the time 5000 at which the examples ask.
\<close>

definition demo_snippet :: PublicContent where
  "demo_snippet = \<lparr>id = ''S1'', authorId = ''u'', createdAt = 1000, likes = [],
                    bookmarks = [], comments = 0, isPublic = True\<rparr>"

definition demo_doc :: PublicContent where
  "demo_doc = \<lparr>id = ''D1'', authorId = ''u'', createdAt = 2000, likes = [],
                bookmarks = [], comments = 0, isPublic = True\<rparr>"

definition demo_bug :: Bug where
  "demo_bug = \<lparr>id = ''B1'', authorId = ''u'', createdAt = 3000, likes = [],
                bookmarks = [], comments = 0, expiresAt = 9000, status = OPEN\<rparr>"

definition expired_bug :: Bug where
  "expired_bug = \<lparr>id = ''B0'', authorId = ''u'', createdAt = 3500, likes = [],
                   bookmarks = [], comments = 0, expiresAt = 4000, status = OPEN\<rparr>"

definition demo_like :: NotificationData where
  "demo_like = \<lparr>recipientId = ''u'', senderId = ''a'', ntype = LIKE, snippetId = Some ''S1'',
                 docId = None, bugId = None, commentId = None\<rparr>"

definition notification_of_a :: Notification where
  "notification_of_a = \<lparr>recipientId = ''a'', senderId = ''u'', ntype = FOLLOW, snippetId = None,
       docId = None, bugId = None, commentId = None,
       notif_id = ''n1'', read = False, notif_createdAt = 100\<rparr>"

definition notification_of_b :: Notification where
  "notification_of_b = \<lparr>recipientId = ''b'', senderId = ''u'', ntype = FOLLOW, snippetId = None,
       docId = None, bugId = None, commentId = None,
       notif_id = ''n2'', read = False, notif_createdAt = 200\<rparr>"

definition demo_world :: world where
  "demo_world =
     \<lparr>follows = [\<lparr>followerId = ''a'', followingId = ''u''\<rparr>,
                 \<lparr>followerId = ''b'', followingId = ''u''\<rparr>],
      notifications = [notification_of_a, notification_of_b],
      snippets = [demo_snippet], docs = [demo_doc], bugs = [expired_bug, demo_bug],
      store_ok = True, tie_rank = (\<lambda>i. 0), io = Some [], console = []\<rparr>"

text \<open>A store where a snippet and a bug of \<open>u\<close> were created at the same instant.\<close>

definition tie_snippet :: PublicContent where
  "tie_snippet = \<lparr>id = ''S2'', authorId = ''u'', createdAt = 3000, likes = [],
                   bookmarks = [], comments = 0, isPublic = True\<rparr>"

definition tie_world :: world where
  "tie_world =
     \<lparr>follows = [\<lparr>followerId = ''a'', followingId = ''u''\<rparr>],
      notifications = [],
      snippets = [tie_snippet], docs = [], bugs = [demo_bug],
      store_ok = True, tie_rank = (\<lambda>i. 0), io = Some [], console = []\<rparr>"

text \<open>
  A store where \<open>u\<close>, followed by \<open>a\<close>, owns four public snippets and a public doc, and a
  store with two public snippets of \<open>u\<close> and no follow rows.
\<close>

definition snippet_at :: "string \<Rightarrow> int \<Rightarrow> PublicContent" where
  "snippet_at i t = \<lparr>id = i, authorId = ''u'', createdAt = t, likes = [],
                     bookmarks = [], comments = 0, isPublic = True\<rparr>"

definition busy_world :: world where
  "busy_world =
     \<lparr>follows = [\<lparr>followerId = ''a'', followingId = ''u''\<rparr>],
      notifications = [],
      snippets = [snippet_at ''S1'' 1000, snippet_at ''S2'' 2000, snippet_at ''S3'' 3000,
                  snippet_at ''S4'' 4000],
      docs = [demo_doc], bugs = [],
      store_ok = True, tie_rank = (\<lambda>i. 0), io = Some [], console = []\<rparr>"

definition public_world :: world where
  "public_world =
     \<lparr>follows = [], notifications = [],
      snippets = [snippet_at ''S1'' 1000, snippet_at ''S2'' 2000],
      docs = [], bugs = [],
      store_ok = True, tie_rank = (\<lambda>i. 0), io = Some [], console = []\<rparr>"

section \<open>Notifications\<close>

text \<open>
  Claim C2.  A call of \<open>createNotification\<close> whose recipient is its sender changes nothing:
  the call resolves and the world after it is the world before it, so no notification row
  is written and nothing is emitted on any room, whatever the state of the store and of
  the socket server.
\<close>

theorem createNotification_self_noop:
  assumes "recipientId d = senderId d"
  shows "createNotification d new_id now w = (Resolved (), w)
       \<and> notifications (snd (createNotification d new_id now w)) = notifications w
       \<and> io (snd (createNotification d new_id now w)) = io w"
  using assms by (simp add: createNotification_def)

text \<open>User \<open>u\<close> liking their own snippet leaves the example store as it is.\<close>

theorem createNotification_self_noop_witness:
  "createNotification (demo_like\<lparr>senderId := ''u''\<rparr>) ''n3'' 6000 demo_world
     = (Resolved (), demo_world)"
  using createNotification_self_noop [of "demo_like\<lparr>senderId := ''u''\<rparr>" "''n3''" 6000 demo_world]
  by (simp add: demo_like_def)

lemma notifications_mark:
  "store_ok w \<Longrightarrow> markNotificationsAsRead userId ids w
     = (Resolved (), w\<lparr>notifications :=
          map (\<lambda>n. if recipientId n = userId \<and> (case ids of None \<Rightarrow> True | Some l \<Rightarrow> l = [] \<or> notif_id n \<in> set l)
                    then n\<lparr>read := True\<rparr> else n) (notifications w)\<rparr>)"
  by (cases ids) (auto simp: markNotificationsAsRead_def notification_updateMany_def Let_def)

text \<open>
  Claim C7.  When the store accepts the update, \<open>markNotificationsAsRead userId ids\<close>
  resolves and keeps the number and order of the notification rows, and row by row: a row
  whose recipient is not \<open>userId\<close> is unchanged; with \<open>ids\<close> omitted or empty every row of
  \<open>userId\<close> is marked read; with a non-empty list the rows of \<open>userId\<close> whose id is listed
  are marked read and every row whose id is not listed is unchanged.
\<close>

theorem markNotificationsAsRead_scope:
  assumes "store_ok w"
  shows "fst (markNotificationsAsRead userId ids w) = Resolved ()
       \<and> length (notifications (snd (markNotificationsAsRead userId ids w))) = length (notifications w)
       \<and> (\<forall>i < length (notifications w).
            (recipientId (notifications w ! i) \<noteq> userId \<longrightarrow>
               notifications (snd (markNotificationsAsRead userId ids w)) ! i = notifications w ! i)
          \<and> (recipientId (notifications w ! i) = userId \<and> (ids = None \<or> ids = Some []) \<longrightarrow>
               notifications (snd (markNotificationsAsRead userId ids w)) ! i
                 = (notifications w ! i)\<lparr>read := True\<rparr>)
          \<and> (\<forall>l. ids = Some l \<and> l \<noteq> [] \<longrightarrow>
               (recipientId (notifications w ! i) = userId \<and> notif_id (notifications w ! i) \<in> set l \<longrightarrow>
                  notifications (snd (markNotificationsAsRead userId ids w)) ! i
                    = (notifications w ! i)\<lparr>read := True\<rparr>)
             \<and> (notif_id (notifications w ! i) \<notin> set l \<longrightarrow>
                  notifications (snd (markNotificationsAsRead userId ids w)) ! i = notifications w ! i)))"
  by (cases ids) (auto simp: notifications_mark[OF assms])

text \<open>
  User \<open>a\<close> passing the id of the notification of \<open>b\<close> leaves that notification as it was,
  unread.
\<close>

theorem markNotificationsAsRead_scope_witness:
  "notifications (snd (markNotificationsAsRead ''a'' (Some [''n2'']) demo_world)) ! 1
     = notification_of_b
   \<and> read notification_of_b = False"
proof -
  have ok: "store_ok demo_world" by (simp add: demo_world_def)
  have n: "notifications demo_world = [notification_of_a, notification_of_b]"
    by (simp add: demo_world_def)
  show ?thesis
    using markNotificationsAsRead_scope[OF ok, of "''a''" "Some [''n2'']"]
    by (simp add: n notification_of_b_def)
qed

section \<open>Fan-out\<close>

lemma emit_io: "io (emit r ev p w) = map_option (\<lambda>es. es @ [\<lparr>room = r, eventName = ev, body = p\<rparr>]) (io w)"
  by (simp add: emit_def)

lemma foldl_emit_io:
  "io (foldl (\<lambda>w' f. emit (followerId f) ev p w') w fs)
     = map_option (\<lambda>es. es @ map (\<lambda>f. \<lparr>room = followerId f, eventName = ev, body = p\<rparr>) fs) (io w)"
proof (induction fs arbitrary: w)
  case Nil
  show ?case by (simp add: option.map_ident)
next
  case (Cons f fs)
  show ?case by (simp add: Cons.IH emit_io option.map_comp comp_def)
qed

lemma emitToFollowers_io:
  assumes "store_ok w" and "io w = Some es"
  shows "io (emitToFollowers author ev p w)
     = Some (es @ map (\<lambda>r. \<lparr>room = r, eventName = ev, body = p\<rparr>)
                  (map followerId (filter (\<lambda>f. followingId f = author) (follows w)) @ [author]))"
  using assms
  by (simp add: emitToFollowers_def follow_findMany_def getIO_def emit_io foldl_emit_io)

lemma distinct_followers:
  assumes "distinct (map (\<lambda>f. (followerId f, followingId f)) fs)"
  shows "distinct (map followerId (filter (\<lambda>f. followingId f = author) fs))"
  using assms
proof (induction fs)
  case Nil
  show ?case by simp
next
  case (Cons f fs)
  then show ?case by (auto simp: image_iff)
qed

text \<open>
  Claim C4.  Let the follower lookup succeed and the socket server be initialised, let the
  follow rows be distinct as pairs (their unique index), and let \<open>U\<close> have no self-follow
  row.  Then \<open>emitToFollowers U ev p\<close> appends to the emissions exactly one emission of
  \<open>ev\<close> with \<open>p\<close> for each follower of \<open>U\<close>, in row order, and one for \<open>U\<close> itself: a
  room is published to once if it is \<open>U\<close> or a follower of \<open>U\<close>, and not at all otherwise,
  so a user who does not follow \<open>U\<close> gets nothing.
\<close>

theorem emitToFollowers_audience:
  assumes "store_ok w" and "io w = Some es"
    and "distinct (map (\<lambda>f. (followerId f, followingId f)) (follows w))"
    and "\<forall>f \<in> set (follows w). \<not> (followerId f = U \<and> followingId f = U)"
  shows "io (emitToFollowers U ev p w)
           = Some (es @ map (\<lambda>r. \<lparr>room = r, eventName = ev, body = p\<rparr>)
                          (map followerId (filter (\<lambda>f. followingId f = U) (follows w)) @ [U]))
       \<and> (\<forall>r. count_list (map followerId (filter (\<lambda>f. followingId f = U) (follows w)) @ [U]) r
              = (if r = U \<or> (\<exists>f \<in> set (follows w). followerId f = r \<and> followingId f = U)
                 then 1 else 0))"
proof -
  let ?fs = "map followerId (filter (\<lambda>f. followingId f = U) (follows w))"
  have d: "distinct ?fs" using assms(3) by (rule distinct_followers)
  have notin: "U \<notin> set ?fs" using assms(4) by auto
  have mem: "\<And>r. r \<in> set ?fs \<longleftrightarrow> (\<exists>f \<in> set (follows w). followerId f = r \<and> followingId f = U)"
    by auto
  have cnt: "\<And>r. count_list ?fs r = (if r \<in> set ?fs then 1 else 0)"
    using d by (metis count_mset distinct_count_atmost_1)
  have "count_list (?fs @ [U]) r
              = (if r = U \<or> (\<exists>f \<in> set (follows w). followerId f = r \<and> followingId f = U)
                 then 1 else 0)" for r
  proof (cases "r = U")
    case True
    then have "count_list ?fs r = 0" using notin cnt by simp
    then show ?thesis using True by simp
  next
    case False
    have "count_list (?fs @ [U]) r = count_list ?fs r" using False by simp
    also have "\<dots> = (if (\<exists>f \<in> set (follows w). followerId f = r \<and> followingId f = U) then 1 else 0)"
      unfolding cnt mem ..
    finally show ?thesis using False by simp
  qed
  then show ?thesis using emitToFollowers_io[OF assms(1,2)] by simp
qed

text \<open>
  In the example store the followers of \<open>u\<close> are \<open>a\<close> and \<open>b\<close>: the event reaches the rooms
  \<open>a\<close>, \<open>b\<close>, \<open>u\<close> and not the room of \<open>c\<close>.
\<close>

theorem emitToFollowers_audience_witness:
  "io (emitToFollowers ''u'' ''new-bug'' (ContentRow ''B1'') demo_world)
     = Some [\<lparr>room = ''a'', eventName = ''new-bug'', body = ContentRow ''B1''\<rparr>,
             \<lparr>room = ''b'', eventName = ''new-bug'', body = ContentRow ''B1''\<rparr>,
             \<lparr>room = ''u'', eventName = ''new-bug'', body = ContentRow ''B1''\<rparr>]
   \<and> count_list [''a'', ''b'', ''u''] ''c'' = 0"
  using emitToFollowers_audience[of demo_world "[]" "''u''" "''new-bug''" "ContentRow ''B1''"]
  by (simp add: demo_world_def)

section \<open>Writes and their downstream work\<close>











section \<open>Joining a topic\<close>

lemma join_twice: "join conn topic (join conn topic reg) = join conn topic reg"
  by (simp add: join_def)

lemma on_join_twice:
  "on_join_user_room conn topic (on_join_user_room conn topic reg) = on_join_user_room conn topic reg"
  by (simp add: on_join_user_room_def join_def)

lemma member_join: "conn |\<in>| members topic (join conn topic reg)"
  by (auto simp: members_def join_def intro!: fimageI[where x="(conn, topic)", simplified])

lemma publish_count:
  "count (publish topic ev p reg) (c, ev, p) = (if c |\<in>| members topic reg then 1 else 0)"
proof -
  let ?X = "mset_set (fset (members topic reg))"
  have "{x. x \<in># ?X \<and> (c, ev, p) = (x, ev, p)} = (if c |\<in>| members topic reg then {c} else {})"
    by auto
  then have "count (image_mset (\<lambda>c. (c, ev, p)) ?X) (c, ev, p)
               = (if c |\<in>| members topic reg then count ?X c else 0)"
    by (simp add: count_image_mset')
  then show ?thesis by (simp add: publish_def)
qed

lemma on_join_user_room_joins:
  "topic \<noteq> [] \<Longrightarrow> on_join_user_room conn topic reg = join conn topic reg"
  by (simp add: on_join_user_room_def)

lemma on_join_content_room_joins:
  "topic \<noteq> [] \<Longrightarrow> on_join_content_room conn topic reg = join conn topic reg"
  by (simp add: on_join_content_room_def)

text \<open>
  Claim C9.  Joining a topic twice gives the membership that joining once gives, for the
  registry operation and for the \<^verbatim>\<open>join-user-room\<close> handler alike, and a publish on the
  topic after two joins delivers the message to the connection exactly once.  For a
  non-empty topic (the handlers ignore an empty id) two runs of the \<^verbatim>\<open>join-user-room\<close>
  handler, or of the \<^verbatim>\<open>join-content-room\<close> handler, leave the membership of one join, and
  a publish on the topic after them delivers the message to the connection exactly once.
\<close>

theorem join_idempotent:
  "join conn topic (join conn topic reg) = join conn topic reg
   \<and> on_join_user_room conn topic (on_join_user_room conn topic reg)
       = on_join_user_room conn topic reg
   \<and> count (publish topic ev p (join conn topic (join conn topic reg))) (conn, ev, p) = 1
   \<and> (topic \<noteq> [] \<longrightarrow>
        on_join_user_room conn topic (on_join_user_room conn topic reg) = join conn topic reg
        \<and> count (publish topic ev p
                   (on_join_user_room conn topic (on_join_user_room conn topic reg)))
             (conn, ev, p) = 1
        \<and> on_join_content_room conn topic (on_join_content_room conn topic reg)
            = join conn topic reg
        \<and> count (publish topic ev p
                   (on_join_content_room conn topic (on_join_content_room conn topic reg)))
             (conn, ev, p) = 1)"
  by (simp add: join_twice on_join_twice publish_count member_join on_join_user_room_joins
      on_join_content_room_joins)

text \<open>
  A connection \<open>k1\<close> sending \<^verbatim>\<open>join-user-room\<close> twice for user \<open>a\<close> is a member of room
  \<open>a\<close> once and receives one copy of a notification published there.
\<close>

theorem join_idempotent_witness:
  "count (publish ''a'' ''new_notification'' (ContentRow ''S1'')
            (on_join_user_room ''k1'' ''a'' (on_join_user_room ''k1'' ''a'' {||})))
     (''k1'', ''new_notification'', ContentRow ''S1'') = 1
   \<and> on_join_user_room ''k1'' ''a'' (on_join_user_room ''k1'' ''a'' {||}) = {|(''k1'', ''a'')|}"
proof -
  have ne: "''a'' \<noteq> []" by simp
  note t = join_idempotent[of "''k1''" "''a''" "{||}" "''new_notification''" "ContentRow ''S1''"]
  have c: "count (publish ''a'' ''new_notification'' (ContentRow ''S1'')
            (on_join_user_room ''k1'' ''a'' (on_join_user_room ''k1'' ''a'' {||})))
     (''k1'', ''new_notification'', ContentRow ''S1'') = 1"
    using t ne by blast
  have j: "on_join_user_room ''k1'' ''a'' (on_join_user_room ''k1'' ''a'' {||})
             = join ''k1'' ''a'' {||}"
    using t ne by blast
  show ?thesis using c j by (simp add: join_def)
qed

section \<open>Sorting, slicing and paging\<close>

lemma insert_sorted_insort:
  "insert_sorted newest_first x ys = insort_key (\<lambda>i. - item_createdAt i) x ys"
  by (induction ys) (simp_all add: newest_first_def)

lemma Array_sort_sort_key:
  "Array_sort newest_first xs = sort_key (\<lambda>i. - item_createdAt i) xs"
proof -
  have "insert_sorted newest_first = insort_key (\<lambda>i. - item_createdAt i)"
    by (intro ext) (rule insert_sorted_insort)
  then show ?thesis by (simp add: Array_sort_def sort_key_def)
qed

lemma mset_Array_sort: "mset (Array_sort newest_first xs) = mset xs"
  by (simp add: Array_sort_sort_key)

lemma set_Array_sort: "set (Array_sort newest_first xs) = set xs"
  by (simp add: Array_sort_sort_key)

lemma length_Array_sort: "length (Array_sort newest_first xs) = length xs"
  by (simp add: Array_sort_sort_key)

lemma Array_sort_descending:
  "sorted_wrt (\<lambda>a b. item_createdAt a \<ge> item_createdAt b) (Array_sort newest_first xs)"
proof -
  have "sorted (map (\<lambda>i. - item_createdAt i) (Array_sort newest_first xs))"
    by (simp add: Array_sort_sort_key)
  then show ?thesis by (simp add: sorted_map)
qed

lemma Array_sort_stable:
  "filter (\<lambda>i. item_createdAt i = t) (Array_sort newest_first xs)
     = filter (\<lambda>i. item_createdAt i = t) xs"
proof -
  have "filter (\<lambda>i. - item_createdAt i = - t) (sort_key (\<lambda>i. - item_createdAt i) xs)
          = filter (\<lambda>i. - item_createdAt i = - t) xs"
    by (rule sort_key_stable)
  then show ?thesis by (simp add: Array_sort_sort_key)
qed

lemma set_slice: "set (slice a b xs) \<subseteq> set xs"
  unfolding slice_def Let_def by (meson set_take_subset set_drop_subset subset_trans)

lemma slice_window:
  assumes "0 \<le> a" and "0 \<le> l"
  shows "slice a (a + l) xs = take (nat l) (drop (nat a) xs)"
proof (cases "a \<le> int (length xs)")
  case True
  then show ?thesis using assms by (simp add: slice_def Let_def min_def) 
next
  case False
  then show ?thesis using assms by (simp add: slice_def Let_def min_def)
qed

lemma set_paginate: "set (paginate tk sk xs) \<subseteq> set xs"
proof (cases "0 \<le> tk")
  case True
  then show ?thesis unfolding paginate_def
    by (simp, meson set_take_subset set_drop_subset subset_trans)
next
  case False
  have "set (take (nat (- tk)) (drop sk (rev xs))) \<subseteq> set (rev xs)"
    by (meson set_take_subset set_drop_subset subset_trans)
  then show ?thesis using False by (auto simp: paginate_def)
qed

lemma length_paginate: "int (length (paginate tk sk xs)) \<le> \<bar>tk\<bar>"
  by (auto simp: paginate_def)

lemma set_findMany: "set (findMany whr rank tk sk table) \<subseteq> {r \<in> set table. whr r}"
  using set_paginate[of tk sk
      "sort_key (\<lambda>r. - createdAt r) (sort_key (\<lambda>r. rank (id r)) (filter whr table))"]
  by (simp add: findMany_def)

lemma length_findMany: "int (length (findMany whr rank tk sk table)) \<le> \<bar>tk\<bar>"
  by (simp add: findMany_def length_paginate)

lemma length_findMany_nat:
  assumes "0 \<le> tk"
  shows "int (length (findMany whr rank tk sk table)) \<le> tk"
  using length_findMany[of whr rank tk sk table] assms by simp

lemma findMany_none:
  assumes "\<forall>r \<in> set table. \<not> whr r"
  shows "findMany whr rank tk sk table = []"
proof -
  have "filter whr table = []" using assms by (simp add: filter_empty_conv)
  then show ?thesis by (simp add: findMany_def paginate_def)
qed

lemma findMany_take:
  assumes "0 \<le> tk"
  obtains S where "mset S = mset (filter whr table)"
    and "sorted_wrt (\<lambda>a b. createdAt a \<ge> createdAt b) S"
    and "findMany whr rank tk 0 table = take (nat tk) S"
proof -
  let ?S = "sort_key (\<lambda>r. - createdAt r) (sort_key (\<lambda>r. rank (id r)) (filter whr table))"
  have "sorted (map (\<lambda>r. - createdAt r) ?S)" by simp
  then have "sorted_wrt (\<lambda>a b. createdAt a \<ge> createdAt b) ?S" by (simp add: sorted_map)
  moreover have "mset ?S = mset (filter whr table)" by simp
  moreover have "findMany whr rank tk 0 table = take (nat tk) ?S"
    using assms by (simp add: findMany_def paginate_def)
  ultimately show ?thesis using that by blast
qed

lemma take_newest:
  assumes "sorted_wrt (\<lambda>a b. createdAt a \<ge> createdAt b) S"
  shows "mset (take n S) \<subseteq># mset S"
    and "length (take n S) = min n (length S)"
    and "sorted_wrt (\<lambda>a b. createdAt a \<ge> createdAt b) (take n S)"
    and "\<forall>x \<in> set (take n S). \<forall>y \<in># mset S - mset (take n S). createdAt y \<le> createdAt x"
proof -
  have split: "mset S = mset (take n S) + mset (drop n S)"
    by (metis append_take_drop_id mset_append)
  show "mset (take n S) \<subseteq># mset S" by (subst split) simp
  show "length (take n S) = min n (length S)" by (simp add: min.commute)
  have both: "sorted_wrt (\<lambda>a b. createdAt a \<ge> createdAt b) (take n S @ drop n S)"
    using assms by simp
  then show "sorted_wrt (\<lambda>a b. createdAt a \<ge> createdAt b) (take n S)"
    unfolding sorted_wrt_append by blast
  have rest: "mset S - mset (take n S) = mset (drop n S)" by (subst split) simp
  show "\<forall>x \<in> set (take n S). \<forall>y \<in># mset S - mset (take n S). createdAt y \<le> createdAt x"
    using both unfolding sorted_wrt_append rest by auto
qed

section \<open>The quotas in binary64 arithmetic\<close>

lemma bit_length_upper: "n < 2 ^ bit_length n"
proof (induction n rule: bit_length.induct)
  case (1 n)
  show ?case
  proof (cases "n = 0")
    case True
    then show ?thesis by (simp add: bit_length.simps)
  next
    case False
    then have "n div 2 < 2 ^ bit_length (n div 2)" using 1 by simp
    then have "n < 2 * 2 ^ bit_length (n div 2)" by linarith
    then show ?thesis using False by (subst bit_length.simps) simp
  qed
qed

lemma bit_length_lower: "n \<noteq> 0 \<Longrightarrow> 2 ^ (bit_length n - 1) \<le> n"
proof (induction n rule: bit_length.induct)
  case (1 n)
  show ?case
  proof (cases "n div 2 = 0")
    case True
    then have "bit_length n = 1" using 1(2) by (simp add: bit_length.simps[of n] bit_length.simps[of 0])
    then show ?thesis using 1(2) by simp
  next
    case False
    then have ih: "2 ^ (bit_length (n div 2) - 1) \<le> n div 2" using 1 by simp
    have pos: "bit_length (n div 2) \<noteq> 0" using False by (subst bit_length.simps) simp
    have "bit_length n = Suc (bit_length (n div 2))" using 1(2) by (subst bit_length.simps) simp
    then have "(2::nat) ^ (bit_length n - 1) = 2 * 2 ^ (bit_length (n div 2) - 1)"
      using pos by (cases "bit_length (n div 2)") simp_all
    then show ?thesis using ih by linarith
  qed
qed

lemma bit_length_le: "n < 2 ^ e \<Longrightarrow> bit_length n \<le> e"
proof (rule ccontr)
  assume lt: "n < 2 ^ e" and "\<not> bit_length n \<le> e"
  then have e: "e \<le> bit_length n - 1" by simp
  have "n \<noteq> 0"
  proof
    assume "n = 0"
    then have "bit_length n = 0" by (simp add: bit_length.simps)
    then show False using \<open>\<not> bit_length n \<le> e\<close> by simp
  qed
  then have "2 ^ (bit_length n - 1) \<le> n" by (rule bit_length_lower)
  moreover have "(2::nat) ^ e \<le> 2 ^ (bit_length n - 1)" using e by (simp add: power_increasing)
  ultimately show False using lt by linarith
qed

lemma round_ties_even_range:
  "round_ties_even n k = n div 2 ^ k \<or> round_ties_even n k = n div 2 ^ k + 1"
  by (simp add: round_ties_even_def Let_def)

lemma round_ties_even_down:
  "2 * (n mod 2 ^ k) < 2 ^ k \<Longrightarrow> round_ties_even n k = n div 2 ^ k"
  by (simp add: round_ties_even_def Let_def)

lemma round_ties_even_ge:
  assumes "j * 2 ^ k \<le> n"
  shows "j \<le> round_ties_even n k"
proof -
  have "j \<le> n div 2 ^ k" using assms by (simp add: less_eq_div_iff_mult_less_eq)
  then show ?thesis using round_ties_even_range[of n k] by linarith
qed

lemma round_ties_even_le:
  assumes "n \<le> j * 2 ^ k"
  shows "round_ties_even n k \<le> j"
proof (cases "n mod 2 ^ k = 0")
  case True
  then have "round_ties_even n k = n div 2 ^ k" by (simp add: round_ties_even_down)
  moreover have "n div 2 ^ k \<le> j" using assms
    by (metis div_le_mono nonzero_mult_div_cancel_right power_not_zero zero_neq_numeral)
  ultimately show ?thesis by simp
next
  case False
  then have "n \<noteq> j * 2 ^ k" by auto
  then have "n < j * 2 ^ k" using assms by simp
  then have "n div 2 ^ k < j" by (simp add: div_less_iff_less_mult)
  then show ?thesis using round_ties_even_range[of n k] by linarith
qed

lemma round53_ge:
  assumes "n < 2 ^ (53 + e)" and "2 ^ e dvd M" and "M \<le> n"
  shows "M \<le> round53 n"
proof (cases "bit_length n \<le> 53")
  case True
  then show ?thesis using assms(3) by (simp add: round53_def)
next
  case False
  define k where "k = bit_length n - 53"
  have "bit_length n \<le> 53 + e" using assms(1) by (rule bit_length_le)
  then have "k \<le> e" by (simp add: k_def)
  then have "(2::nat) ^ k dvd 2 ^ e" by (simp add: le_imp_power_dvd)
  then have "2 ^ k dvd M" using assms(2) by (rule dvd_trans)
  then obtain j where M: "M = j * 2 ^ k" by (auto simp: dvd_def mult.commute)
  have "j \<le> round_ties_even n k" using assms(3) unfolding M by (rule round_ties_even_ge)
  then have "j * 2 ^ k \<le> round_ties_even n k * 2 ^ k" by simp
  then show ?thesis using False by (simp add: round53_def Let_def k_def M)
qed

lemma round53_le:
  assumes "n < 2 ^ (53 + e)" and "2 ^ e dvd M" and "n \<le> M"
  shows "round53 n \<le> M"
proof (cases "bit_length n \<le> 53")
  case True
  then show ?thesis using assms(3) by (simp add: round53_def)
next
  case False
  define k where "k = bit_length n - 53"
  have "bit_length n \<le> 53 + e" using assms(1) by (rule bit_length_le)
  then have "k \<le> e" by (simp add: k_def)
  then have "(2::nat) ^ k dvd 2 ^ e" by (simp add: le_imp_power_dvd)
  then have "2 ^ k dvd M" using assms(2) by (rule dvd_trans)
  then obtain j where M: "M = j * 2 ^ k" by (auto simp: dvd_def mult.commute)
  have "round_ties_even n k \<le> j" using assms(3) unfolding M by (rule round_ties_even_le)
  then have "round_ties_even n k * 2 ^ k \<le> j * 2 ^ k" by simp
  then show ?thesis using False by (simp add: round53_def Let_def k_def M)
qed

lemma round53_just_above:
  assumes "n < 2 ^ (53 + e)" and "2 ^ e dvd M" and "n = M + d" and "d * 2 ^ 54 \<le> n"
  shows "round53 n = M"
proof (cases "d = 0")
  case True
  have "M \<le> round53 n" using assms(1,2) by (rule round53_ge) (simp add: assms(3))
  moreover have "round53 n \<le> M" using assms(1,2) by (rule round53_le) (simp add: assms(3) True)
  ultimately show ?thesis by simp
next
  case False
  define b where "b = bit_length n"
  define k where "k = b - 53"
  have nb: "n < 2 ^ b" unfolding b_def by (rule bit_length_upper)
  have "(2::nat) ^ 54 \<le> d * 2 ^ 54" using False by simp
  then have p54: "(2::nat) ^ 54 < 2 ^ b" using assms(4) nb by linarith
  have b54: "54 < b" by (rule power_less_imp_less_exp[of 2]) (use p54 in simp_all)
  then have bk: "b = (k - 1) + 54" and k1: "k = Suc (k - 1)" by (simp_all add: k_def)
  have "d * 2 ^ 54 < 2 ^ (k - 1) * 2 ^ 54"
    using assms(4) nb by (subst (asm) bk) (simp add: power_add)
  then have d: "d < 2 ^ (k - 1)" by simp
  then have d2: "2 * d < 2 ^ k" by (subst k1) simp
  have "b \<le> 53 + e" unfolding b_def using assms(1) by (rule bit_length_le)
  then have "k \<le> e" by (simp add: k_def)
  then have "(2::nat) ^ k dvd 2 ^ e" by (simp add: le_imp_power_dvd)
  then have "2 ^ k dvd M" using assms(2) by (rule dvd_trans)
  then obtain j where M: "M = j * 2 ^ k" by (auto simp: dvd_def mult.commute)
  have dk: "d < 2 ^ k" using d2 by simp
  have md: "n mod 2 ^ k = d" and dv: "n div 2 ^ k = j" using dk by (simp_all add: assms(3) M)
  have "round_ties_even n k = j" using round_ties_even_down[of n k] d2 by (simp add: md dv)
  moreover have "\<not> b \<le> 53" using b54 by simp
  ultimately show ?thesis by (simp add: round53_def Let_def b_def[symmetric] k_def[symmetric] M)
qed

lemma ceil_div_unique:
  fixes R T P :: int
  assumes "0 < P" and "(T - 1) * P < R" and "R \<le> T * P"
  shows "- ((- R) div P) = T"
proof -
  have "(- R) div P = - T"
  proof (rule int_div_pos_eq)
    show "- R = P * (- T) + (T * P - R)" by (simp add: algebra_simps)
    show "0 \<le> T * P - R" using assms(3) by simp
    show "T * P - R < P" using assms(2) by (simp add: algebra_simps)
  qed
  then show ?thesis by simp
qed

lemma ceil_div_le:
  fixes R T P :: int
  assumes "0 < P" and "R \<le> T * P"
  shows "- ((- R) div P) \<le> T"
proof -
  have le: "(- (T * P)) div P \<le> (- R) div P" using assms by (intro zdiv_mono1) simp_all
  have "P \<noteq> 0" using assms(1) by simp
  then have "((- T) * P) div P = - T" by (rule nonzero_mult_div_cancel_right)
  then have "(- (T * P)) div P = - T" by (simp only: mult_minus_left)
  then show ?thesis using le by linarith
qed

lemma Math_ceil_nonneg: "0 < l \<Longrightarrow> 0 \<le> Math_ceil (js_times l c)"
proof -
  assume "0 < l"
  have "(- int (round53 (nat \<bar>l\<bar> * fst c))) div 2 ^ snd c \<le> 0"
    by (rule div_nonpos_pos_le0) simp_all
  then show ?thesis using \<open>0 < l\<close> by (simp add: Math_ceil_def js_times_def)
qed

lemma hi_0_7:
  fixes n :: nat
  assumes "0 < n" and "n < 2 ^ 53"
  shows "round53 (n * 3152519739159347) \<le> ((7 * n + 9) div 10) * 2 ^ 52"
proof -
  define T where "T = (7 * n + 9) div 10"
  have n: "n < 9007199254740992" using assms by simp
  have T: "7 * n \<le> 10 * T" by (simp add: T_def)
  have "n * 3152519739159347 < 2 ^ (53 + 52)" using n by simp
  moreover have "2 ^ 52 dvd T * (2::nat) ^ 52" by simp
  moreover have "n * 3152519739159347 \<le> T * 2 ^ 52" using n T by simp
  ultimately have "round53 (n * 3152519739159347) \<le> T * 2 ^ 52" by (rule round53_le)
  then show ?thesis unfolding T_def .
qed

lemma hi_0_2:
  fixes n :: nat
  assumes "0 < n" and "n < 2 ^ 53"
  shows "round53 (n * 3602879701896397) \<le> ((2 * n + 9) div 10) * 2 ^ 54"
proof -
  define T where "T = (2 * n + 9) div 10"
  define N where "N = n * 3602879701896397"
  have n: "n < 9007199254740992" using assms by simp
  have T: "2 * n \<le> 10 * T" by (simp add: T_def)
  have Nlt: "N < 2 ^ (53 + 54)" using n by (simp add: N_def)
  have dv: "2 ^ 54 dvd T * (2::nat) ^ 54" by simp
  have "round53 N \<le> T * 2 ^ 54"
  proof (cases "10 * T = 2 * n")
    case False
    then have "N \<le> T * 2 ^ 54" using n T by (simp add: N_def)
    with Nlt dv show ?thesis by (rule round53_le)
  next
    case True
    have "N = T * 2 ^ 54 + T" using True by (simp add: N_def)
    moreover have "T * 2 ^ 54 \<le> N" using True by (simp add: N_def)
    ultimately have "round53 N = T * 2 ^ 54" using Nlt dv
      by (intro round53_just_above[where d = T and e = 54])
    then show ?thesis by simp
  qed
  then show ?thesis unfolding T_def N_def .
qed

lemma hi_0_1:
  fixes n :: nat
  assumes "0 < n" and "n < 2 ^ 53"
  shows "round53 (n * 3602879701896397) \<le> ((n + 9) div 10) * 2 ^ 55"
proof -
  define T where "T = (n + 9) div 10"
  define N where "N = n * 3602879701896397"
  have n: "n < 9007199254740992" using assms by simp
  have T: "n \<le> 10 * T" by (simp add: T_def)
  have Nlt: "N < 2 ^ (53 + 55)" using n by (simp add: N_def)
  have dv: "2 ^ 55 dvd T * (2::nat) ^ 55" by simp
  have "round53 N \<le> T * 2 ^ 55"
  proof (cases "10 * T = n")
    case False
    then have "N \<le> T * 2 ^ 55" using n T by (simp add: N_def)
    with Nlt dv show ?thesis by (rule round53_le)
  next
    case True
    have "N = T * 2 ^ 55 + 2 * T" using True by (simp add: N_def)
    moreover have "(2 * T) * 2 ^ 54 \<le> N" using True by (simp add: N_def)
    ultimately have "round53 N = T * 2 ^ 55" using Nlt dv
      by (intro round53_just_above[where d = "2 * T" and e = 55])
    then show ?thesis by simp
  qed
  then show ?thesis unfolding T_def N_def .
qed

lemma quota_0_7_le:
  assumes "0 < l" and "l < 2 ^ 53"
  shows "Math_ceil (js_times l lit_0_7) \<le> (7 * l + 9) div 10"
proof -
  define n where "n = nat l"
  have n: "0 < n" "n < 2 ^ 53" using assms by (simp_all add: n_def)
  have "- ((- int (round53 (n * 3152519739159347))) div 2 ^ 52) \<le> int ((7 * n + 9) div 10)"
    using hi_0_7[OF n] by (intro ceil_div_le) simp_all
  moreover have "int ((7 * n + 9) div 10) = (7 * l + 9) div 10"
    using assms(1) by (simp add: n_def zdiv_int)
  ultimately show ?thesis
    using assms(1) by (simp add: Math_ceil_def js_times_def lit_0_7_def n_def)
qed

lemma quota_0_2_le:
  assumes "0 < l" and "l < 2 ^ 53"
  shows "Math_ceil (js_times l lit_0_2) \<le> (2 * l + 9) div 10"
proof -
  define n where "n = nat l"
  have n: "0 < n" "n < 2 ^ 53" using assms by (simp_all add: n_def)
  have "- ((- int (round53 (n * 3602879701896397))) div 2 ^ 54) \<le> int ((2 * n + 9) div 10)"
    using hi_0_2[OF n] by (intro ceil_div_le) simp_all
  moreover have "int ((2 * n + 9) div 10) = (2 * l + 9) div 10"
    using assms(1) by (simp add: n_def zdiv_int)
  ultimately show ?thesis
    using assms(1) by (simp add: Math_ceil_def js_times_def lit_0_2_def n_def)
qed

lemma quota_0_1_le:
  assumes "0 < l" and "l < 2 ^ 53"
  shows "Math_ceil (js_times l lit_0_1) \<le> (l + 9) div 10"
proof -
  define n where "n = nat l"
  have n: "0 < n" "n < 2 ^ 53" using assms by (simp_all add: n_def)
  have "- ((- int (round53 (n * 3602879701896397))) div 2 ^ 55) \<le> int ((n + 9) div 10)"
    using hi_0_1[OF n] by (intro ceil_div_le) simp_all
  moreover have "int ((n + 9) div 10) = (l + 9) div 10"
    using assms(1) by (simp add: n_def zdiv_int)
  ultimately show ?thesis
    using assms(1) by (simp add: Math_ceil_def js_times_def lit_0_1_def n_def)
qed

lemma quota_0_7:
  assumes "0 < l" and "l < 2 ^ 49"
  shows "Math_ceil (js_times l lit_0_7) = (7 * l + 9) div 10"
proof -
  define n where "n = nat l"
  define N where "N = n * 3152519739159347"
  define T where "T = (7 * n + 9) div 10"
  have n: "0 < n" "n < 562949953421312" using assms by (simp_all add: n_def)
  have T: "10 * T \<le> 7 * n + 9" "7 * n \<le> 10 * T" by (simp_all add: T_def)
  then obtain T' where T': "T = Suc T'" using n by (cases T) simp_all
  have "N < 2 ^ (53 + 48)" using n by (simp add: N_def)
  moreover have "2 ^ 48 dvd (16 * T' + 1) * (2::nat) ^ 48" by simp
  moreover have "(16 * T' + 1) * 2 ^ 48 \<le> N" using n T by (simp add: N_def T')
  ultimately have lo: "(16 * T' + 1) * 2 ^ 48 \<le> round53 N" by (rule round53_ge)
  have hi: "round53 N \<le> T * 2 ^ 52" unfolding N_def T_def using n by (intro hi_0_7) simp_all
  have "Math_ceil (js_times l lit_0_7) = - ((- int (round53 N)) div 2 ^ 52)"
    using assms(1) by (simp add: Math_ceil_def js_times_def lit_0_7_def n_def N_def)
  also have "\<dots> = int T"
  proof (rule ceil_div_unique)
    show "(0::int) < 2 ^ 52" by simp
    show "(int T - 1) * 2 ^ 52 < int (round53 N)" using lo by (simp add: T')
    show "int (round53 N) \<le> int T * 2 ^ 52" using hi by simp
  qed
  also have "\<dots> = (7 * l + 9) div 10" using assms(1) by (simp add: T_def n_def zdiv_int)
  finally show ?thesis .
qed

lemma quota_0_2:
  assumes "0 < l" and "l < 2 ^ 49"
  shows "Math_ceil (js_times l lit_0_2) = (2 * l + 9) div 10"
proof -
  define n where "n = nat l"
  define N where "N = n * 3602879701896397"
  define T where "T = (2 * n + 9) div 10"
  have n: "0 < n" "n < 562949953421312" using assms by (simp_all add: n_def)
  have T: "10 * T \<le> 2 * n + 9" "2 * n \<le> 10 * T" by (simp_all add: T_def)
  then obtain T' where T': "T = Suc T'" using n by (cases T) simp_all
  have "N < 2 ^ (53 + 50)" using n by (simp add: N_def)
  moreover have "2 ^ 50 dvd (16 * T' + 1) * (2::nat) ^ 50" by simp
  moreover have "(16 * T' + 1) * 2 ^ 50 \<le> N" using n T by (simp add: N_def T')
  ultimately have lo: "(16 * T' + 1) * 2 ^ 50 \<le> round53 N" by (rule round53_ge)
  have hi: "round53 N \<le> T * 2 ^ 54" unfolding N_def T_def using n by (intro hi_0_2) simp_all
  have "Math_ceil (js_times l lit_0_2) = - ((- int (round53 N)) div 2 ^ 54)"
    using assms(1) by (simp add: Math_ceil_def js_times_def lit_0_2_def n_def N_def)
  also have "\<dots> = int T"
  proof (rule ceil_div_unique)
    show "(0::int) < 2 ^ 54" by simp
    show "(int T - 1) * 2 ^ 54 < int (round53 N)" using lo by (simp add: T')
    show "int (round53 N) \<le> int T * 2 ^ 54" using hi by simp
  qed
  also have "\<dots> = (2 * l + 9) div 10" using assms(1) by (simp add: T_def n_def zdiv_int)
  finally show ?thesis .
qed

lemma quota_0_1:
  assumes "0 < l" and "l < 2 ^ 49"
  shows "Math_ceil (js_times l lit_0_1) = (l + 9) div 10"
proof -
  define n where "n = nat l"
  define N where "N = n * 3602879701896397"
  define T where "T = (n + 9) div 10"
  have n: "0 < n" "n < 562949953421312" using assms by (simp_all add: n_def)
  have T: "10 * T \<le> n + 9" "n \<le> 10 * T" by (simp_all add: T_def)
  then obtain T' where T': "T = Suc T'" using n by (cases T) simp_all
  have "N < 2 ^ (53 + 51)" using n by (simp add: N_def)
  moreover have "2 ^ 51 dvd (16 * T' + 1) * (2::nat) ^ 51" by simp
  moreover have "(16 * T' + 1) * 2 ^ 51 \<le> N" using n T by (simp add: N_def T')
  ultimately have lo: "(16 * T' + 1) * 2 ^ 51 \<le> round53 N" by (rule round53_ge)
  have hi: "round53 N \<le> T * 2 ^ 55" unfolding N_def T_def using n by (intro hi_0_1) simp_all
  have "Math_ceil (js_times l lit_0_1) = - ((- int (round53 N)) div 2 ^ 55)"
    using assms(1) by (simp add: Math_ceil_def js_times_def lit_0_1_def n_def N_def)
  also have "\<dots> = int T"
  proof (rule ceil_div_unique)
    show "(0::int) < 2 ^ 55" by simp
    show "(int T - 1) * 2 ^ 55 < int (round53 N)" using lo by (simp add: T')
    show "int (round53 N) \<le> int T * 2 ^ 55" using hi by simp
  qed
  also have "\<dots> = (l + 9) div 10" using assms(1) by (simp add: T_def n_def zdiv_int)
  finally show ?thesis .
qed

lemma ceiling_tenths: "\<lceil>of_int a / (10::rat)\<rceil> = (a + 9) div 10"
proof -
  have "\<lfloor>of_int (- a) / (of_int 10 :: rat)\<rfloor> = (- a) div 10" by (rule floor_divide_of_int_eq)
  then have "\<lceil>of_int a / (10::rat)\<rceil> = - ((- a) div 10)" by (simp add: ceiling_def)
  also have "\<dots> = (a + 9) div 10" by linarith
  finally show ?thesis .
qed

lemma quota_fits:
  assumes "0 < l" and "l < 2 ^ 53"
  shows "fits_int64 (Math_ceil (js_times l lit_0_7))"
    and "fits_int64 (Math_ceil (js_times l lit_0_2))"
    and "fits_int64 (Math_ceil (js_times l lit_0_1))"
proof -
  have l: "l < 9007199254740992" using assms(2) by simp
  have "0 \<le> Math_ceil (js_times l lit_0_7)" using assms(1) by (rule Math_ceil_nonneg)
  moreover have "Math_ceil (js_times l lit_0_7) \<le> (7 * l + 9) div 10"
    using assms by (rule quota_0_7_le)
  ultimately show "fits_int64 (Math_ceil (js_times l lit_0_7))"
    using l by (simp add: fits_int64_def)
  have "0 \<le> Math_ceil (js_times l lit_0_2)" using assms(1) by (rule Math_ceil_nonneg)
  moreover have "Math_ceil (js_times l lit_0_2) \<le> (2 * l + 9) div 10"
    using assms by (rule quota_0_2_le)
  ultimately show "fits_int64 (Math_ceil (js_times l lit_0_2))"
    using l by (simp add: fits_int64_def)
  have "0 \<le> Math_ceil (js_times l lit_0_1)" using assms(1) by (rule Math_ceil_nonneg)
  moreover have "Math_ceil (js_times l lit_0_1) \<le> (l + 9) div 10"
    using assms by (rule quota_0_1_le)
  ultimately show "fits_int64 (Math_ceil (js_times l lit_0_1))"
    using l by (simp add: fits_int64_def)
qed

lemmas num_defs = Math_ceil_def js_times_def lit_0_7_def lit_0_2_def lit_0_1_def round53_def
  round_ties_even_def bit_length.simps

lemma quotas_at_10:
  "Math_ceil (js_times 10 lit_0_7) = 7" "Math_ceil (js_times 10 lit_0_2) = 2"
  "Math_ceil (js_times 10 lit_0_1) = 1"
  by (simp_all add: num_defs Let_def)

lemma quotas_at_minus_5:
  "Math_ceil (js_times (- 5) lit_0_7) = - 3" "Math_ceil (js_times (- 5) lit_0_2) = - 1"
  "Math_ceil (js_times (- 5) lit_0_1) = 0"
  by (simp_all add: num_defs Let_def)

lemma quotas_at_minus_1:
  "Math_ceil (js_times (- 1) lit_0_7) = 0" "Math_ceil (js_times (- 1) lit_0_2) = 0"
  "Math_ceil (js_times (- 1) lit_0_1) = 0"
  by (simp_all add: num_defs Let_def)

lemma quota_at_2_60:
  "Math_ceil (js_times 1152921504606846976 lit_0_1) = 115292150460684704"
  by (simp add: num_defs Let_def)

lemma quotas_at_10_19:
  "Math_ceil (js_times 10000000000000000000 lit_0_7) = 7000000000000000000"
  "Math_ceil (js_times 10000000000000000000 lit_0_2) = 2000000000000000000"
  "Math_ceil (js_times 10000000000000000000 lit_0_1) = 1000000000000000000"
  by (simp_all add: num_defs Let_def)

section \<open>The feed request\<close>

lemma default_limit: "or_default None 10 = 10"
  by (simp add: or_default_def)

lemma default_page: "or_default None 1 = 1"
  by (simp add: or_default_def)

lemma feed_queries_ok:
  assumes "store_ok w"
    and "fits_int64 (Math_ceil (js_times limit lit_0_7))"
    and "fits_int64 (Math_ceil (js_times limit lit_0_2))"
    and "fits_int64 (Math_ceil (js_times limit lit_0_1))"
  shows "feed_queries userId fids limit now w =
     Resolved
       (map (include_own userId)
          (findMany (\<lambda>r. authorId r \<in> set fids \<and> isPublic r) (tie_rank w)
             (Math_ceil (js_times limit lit_0_7)) 0 (snippets w)),
        map (include_own userId)
          (findMany (\<lambda>r. authorId r \<in> set fids \<and> isPublic r) (tie_rank w)
             (Math_ceil (js_times limit lit_0_2)) 0 (docs w)),
        map (include_own userId)
          (findMany (\<lambda>r. authorId r \<in> set fids \<and> expiresAt r > now) (tie_rank w)
             (Math_ceil (js_times limit lit_0_1)) 0 (bugs w)))"
  using assms
  by (simp add: feed_queries_def Promise_all_def snippet_findMany_def doc_findMany_def
      bug_findMany_def fits_int64_def)

lemma feed_queries_resolved:
  assumes "feed_queries userId fids limit now w = Resolved (ss, ds, bs)"
  shows "store_ok w"
    and "ss = map (include_own userId)
          (findMany (\<lambda>r. authorId r \<in> set fids \<and> isPublic r) (tie_rank w)
             (Math_ceil (js_times limit lit_0_7)) 0 (snippets w))"
    and "ds = map (include_own userId)
          (findMany (\<lambda>r. authorId r \<in> set fids \<and> isPublic r) (tie_rank w)
             (Math_ceil (js_times limit lit_0_2)) 0 (docs w))"
    and "bs = map (include_own userId)
          (findMany (\<lambda>r. authorId r \<in> set fids \<and> expiresAt r > now) (tie_rank w)
             (Math_ceil (js_times limit lit_0_1)) 0 (bugs w))"
  using assms
  by (simp_all add: feed_queries_def Promise_all_def snippet_findMany_def doc_findMany_def
      bug_findMany_def split: if_splits)

lemma feed_queries_store:
  assumes "feed_queries userId fids limit now w = Resolved q"
  shows "store_ok w"
proof -
  obtain ss ds bs where "q = (ss, ds, bs)" by (cases q) auto
  then show ?thesis using assms feed_queries_resolved(1) by blast
qed

lemma sorted_feedItems_of_queries:
  assumes "feed_queries userId
             (map followingId (filter (\<lambda>f. followerId f = userId) (follows w)) @ [userId])
             limit now w = Resolved q"
  shows "sorted_feedItems userId limit now w
           = Resolved (Array_sort newest_first (feedItems_of q))"
proof -
  have "store_ok w" using assms by (rule feed_queries_store)
  then show ?thesis using assms by (simp add: sorted_feedItems_def follow_findMany_def Let_def)
qed

lemma sorted_feedItems_cases:
  assumes "sorted_feedItems userId limit now w = Resolved merged"
  obtains q where "store_ok w"
    and "feed_queries userId
           (map followingId (filter (\<lambda>f. followerId f = userId) (follows w)) @ [userId])
           limit now w = Resolved q"
    and "merged = Array_sort newest_first (feedItems_of q)"
proof (cases "store_ok w")
  case True
  then show ?thesis using assms that
    by (simp add: sorted_feedItems_def follow_findMany_def Let_def split: outcome.splits)
next
  case False
  then show ?thesis using assms by (simp add: sorted_feedItems_def follow_findMany_def)
qed

lemma getFeed_personalised:
  assumes "sorted_feedItems userId (or_default limit_query 10) now w = Resolved merged"
    and "\<not> (merged = [] \<and> or_default page_query 1 = 1)"
  shows "getFeed userId page_query limit_query now w =
     Json \<lparr>data = slice ((or_default page_query 1 - 1) * or_default limit_query 10)
                    ((or_default page_query 1 - 1) * or_default limit_query 10
                       + or_default limit_query 10) merged,
           total = length merged, page = or_default page_query 1,
           hasMore = (int (length merged)
                        > (or_default page_query 1 - 1) * or_default limit_query 10
                            + or_default limit_query 10)\<rparr>"
  using assms by (auto simp: getFeed_def Let_def)

lemma getFeed_public:
  assumes "sorted_feedItems userId (or_default limit_query 10) now w = Resolved []"
    and "or_default page_query 1 = 1"
    and "fits_int64 (or_default limit_query 10)"
  shows "getFeed userId page_query limit_query now w =
     Json \<lparr>data = map to_public_item (map include_counts
                    (findMany isPublic (tie_rank w) (or_default limit_query 10) 0 (snippets w))),
           total = length (findMany isPublic (tie_rank w) (or_default limit_query 10) 0
                             (snippets w)),
           page = 1,
           hasMore = (int (length (findMany isPublic (tie_rank w) (or_default limit_query 10) 0
                                     (snippets w)))
                        = or_default limit_query 10)\<rparr>"
proof -
  obtain q where "store_ok w" using assms(1) by (rule sorted_feedItems_cases)
  then show ?thesis using assms
    by (simp add: getFeed_def Let_def snippet_findMany_def fits_int64_def)
qed

lemma getFeed_public_data:
  assumes "sorted_feedItems userId (or_default limit_query 10) now w = Resolved []"
    and "or_default page_query 1 = 1"
    and "getFeed userId page_query limit_query now w = Json r"
  shows "data r = map to_public_item (map include_counts
                    (findMany isPublic (tie_rank w) (or_default limit_query 10) 0 (snippets w)))"
  using assms
  by (auto simp: getFeed_def Let_def snippet_findMany_def split: if_splits)

lemma feed_queries_within_take:
  assumes "feed_queries userId fids limit now w = Resolved (ss, ds, bs)" and "0 < limit"
  shows "int (length ss) \<le> Math_ceil (js_times limit lit_0_7)"
    and "int (length ds) \<le> Math_ceil (js_times limit lit_0_2)"
    and "int (length bs) \<le> Math_ceil (js_times limit lit_0_1)"
proof -
  note r = feed_queries_resolved[OF assms(1)]
  have "0 \<le> Math_ceil (js_times limit lit_0_7)" using assms(2) by (rule Math_ceil_nonneg)
  then show "int (length ss) \<le> Math_ceil (js_times limit lit_0_7)"
    unfolding r(2) length_map by (rule length_findMany_nat)
  have "0 \<le> Math_ceil (js_times limit lit_0_2)" using assms(2) by (rule Math_ceil_nonneg)
  then show "int (length ds) \<le> Math_ceil (js_times limit lit_0_2)"
    unfolding r(3) length_map by (rule length_findMany_nat)
  have "0 \<le> Math_ceil (js_times limit lit_0_1)" using assms(2) by (rule Math_ceil_nonneg)
  then show "int (length bs) \<le> Math_ceil (js_times limit lit_0_1)"
    unfolding r(4) length_map by (rule length_findMany_nat)
qed

lemma feed_queries_lengths:
  assumes "feed_queries userId fids limit now w = Resolved (ss, ds, bs)"
    and "0 < limit" and "limit < 2 ^ 53"
  shows "int (length ss) \<le> (7 * limit + 9) div 10"
    and "int (length ds) \<le> (2 * limit + 9) div 10"
    and "int (length bs) \<le> (limit + 9) div 10"
  using feed_queries_within_take[OF assms(1,2)] quota_0_7_le[OF assms(2,3)]
    quota_0_2_le[OF assms(2,3)] quota_0_1_le[OF assms(2,3)]
  by linarith+

lemma merged_length:
  assumes "sorted_feedItems userId limit now w = Resolved merged"
    and "0 < limit" and "limit < 2 ^ 53"
  shows "int (length merged) \<le> (7 * limit + 9) div 10 + (2 * limit + 9) div 10 + (limit + 9) div 10"
proof -
  let ?fids = "map followingId (filter (\<lambda>f. followerId f = userId) (follows w)) @ [userId]"
  obtain q where q: "feed_queries userId ?fids limit now w = Resolved q"
    and m: "merged = Array_sort newest_first (feedItems_of q)"
    using assms(1) by (rule sorted_feedItems_cases)
  obtain ss ds bs where qq: "q = (ss, ds, bs)" by (cases q) auto
  have "length merged = length ss + length ds + length bs"
    by (simp add: m qq length_Array_sort feedItems_of_def)
  then show ?thesis
    using feed_queries_lengths[OF q[unfolded qq] assms(2,3)] by linarith
qed

lemma type_to_item: "type (to_item wrap k s) = k"
  by (simp add: to_item_def)

lemma created_to_item:
  "item_createdAt (to_item SnippetRow k s) = createdAt (row s)"
  "item_createdAt (to_item DocRow k s) = createdAt (row s)"
  "item_createdAt (to_item BugRow k' b) = createdAt (row b)"
  by (simp_all add: to_item_def item_createdAt_def)

lemma entity_public_item: "entity (to_public_item (include_counts r)) = SnippetRow r"
  by (simp add: to_public_item_def include_counts_def)

lemma three_newest_first:
  assumes "createdAt (row s) < createdAt (row d)" and "createdAt (row d) < createdAt (row b)"
  shows "Array_sort newest_first
           [to_item SnippetRow snippet s, to_item DocRow doc d, to_item BugRow bug b]
         = [to_item BugRow bug b, to_item DocRow doc d, to_item SnippetRow snippet s]"
  using assms by (simp add: Array_sort_def newest_first_def created_to_item)

lemma new_viewer_feed_empty:
  assumes "store_ok w" and "0 < limit" and "limit < 2 ^ 53"
    and "\<forall>f \<in> set (follows w). followerId f \<noteq> userId"
    and "\<forall>r \<in> set (snippets w). authorId r \<noteq> userId"
    and "\<forall>r \<in> set (docs w). authorId r \<noteq> userId"
    and "\<forall>r \<in> set (bugs w). authorId r \<noteq> userId"
  shows "sorted_feedItems userId limit now w = Resolved []"
proof -
  have f: "filter (\<lambda>f. followerId f = userId) (follows w) = []"
    using assms(4) by (simp add: filter_empty_conv)
  have s: "findMany (\<lambda>r. authorId r \<in> set [userId] \<and> isPublic r) rk a 0 (snippets w) = []"
    for a rk using assms(5) by (intro findMany_none) simp
  have d: "findMany (\<lambda>r. authorId r \<in> set [userId] \<and> isPublic r) rk a 0 (docs w) = []"
    for a rk using assms(6) by (intro findMany_none) simp
  have b: "findMany (\<lambda>r. authorId r \<in> set [userId] \<and> expiresAt r > now) rk a 0 (bugs w) = []"
    for a rk using assms(7) by (intro findMany_none) simp
  have q: "feed_queries userId
             (map followingId (filter (\<lambda>f. followerId f = userId) (follows w)) @ [userId])
             limit now w = Resolved ([], [], [])"
    unfolding f feed_queries_ok[OF assms(1) quota_fits[OF assms(2,3)]]
    using s d b by simp
  show ?thesis
    unfolding sorted_feedItems_of_queries[OF q]
    by (simp add: feedItems_of_def Array_sort_def)
qed

lemma merged_bug:
  assumes "sorted_feedItems userId limit now w = Resolved merged" and "i \<in> set merged"
    and "type i = bug \<or> (\<exists>b. entity i = BugRow b)"
  shows "\<exists>b \<in> set (bugs w). entity i = BugRow b \<and> now < expiresAt b"
proof -
  let ?fids = "map followingId (filter (\<lambda>f. followerId f = userId) (follows w)) @ [userId]"
  obtain q where q: "feed_queries userId ?fids limit now w = Resolved q"
    and m: "merged = Array_sort newest_first (feedItems_of q)"
    using assms(1) by (rule sorted_feedItems_cases)
  obtain ss ds bs where qq: "q = (ss, ds, bs)" by (cases q) auto
  note r = feed_queries_resolved[OF q[unfolded qq]]
  have "i \<in> set (feedItems_of q)" using assms(2) by (simp add: m set_Array_sort)
  then have "i \<in> set (map (to_item BugRow bug) bs)"
    using assms(3) by (auto simp: qq feedItems_of_def to_item_def)
  then obtain s where s: "s \<in> set (findMany (\<lambda>r. authorId r \<in> set ?fids \<and> expiresAt r > now)
                                 (tie_rank w) (Math_ceil (js_times limit lit_0_1)) 0 (bugs w))"
      and i: "i = to_item BugRow bug (include_own userId s)"
    unfolding r(4) by auto
  have "s \<in> set (bugs w) \<and> now < expiresAt s" using s set_findMany by fastforce
  then show ?thesis by (auto simp: i to_item_def include_own_def)
qed

section \<open>The example stores\<close>

lemmas query_defs = feed_queries_def Promise_all_def snippet_findMany_def doc_findMany_def
  bug_findMany_def findMany_def paginate_def fits_int64_def

lemma demo_followingIds:
  "map followingId (filter (\<lambda>f. followerId f = ''a'') (follows demo_world)) @ [''a''] = [''u'', ''a'']"
  by (simp add: demo_world_def)

lemma demo_queries:
  "feed_queries ''a'' [''u'', ''a''] 10 5000 demo_world
     = Resolved ([include_own ''a'' demo_snippet], [include_own ''a'' demo_doc],
                 [include_own ''a'' demo_bug])"
  by (simp add: query_defs quotas_at_10 demo_world_def demo_snippet_def
      demo_doc_def demo_bug_def expired_bug_def)

lemma demo_sorted:
  "sorted_feedItems ''a'' 10 5000 demo_world
     = Resolved [to_item BugRow bug (include_own ''a'' demo_bug),
                 to_item DocRow doc (include_own ''a'' demo_doc),
                 to_item SnippetRow snippet (include_own ''a'' demo_snippet)]"
proof -
  have f: "follow_findMany (\<lambda>f. followerId f = ''a'') demo_world
             = Resolved [\<lparr>followerId = ''a'', followingId = ''u''\<rparr>]"
    by (simp add: follow_findMany_def demo_world_def)
  have c: "createdAt (row (include_own ''a'' demo_snippet)) < createdAt (row (include_own ''a'' demo_doc))"
     "createdAt (row (include_own ''a'' demo_doc)) < createdAt (row (include_own ''a'' demo_bug))"
    by (simp_all add: include_own_def demo_snippet_def demo_doc_def demo_bug_def)
  show ?thesis
    by (simp add: sorted_feedItems_def f demo_queries feedItems_of_def three_newest_first[OF c])
qed

lemma demo_feed:
  "getFeed ''a'' None None 5000 demo_world
     = Json \<lparr>data = [to_item BugRow bug (include_own ''a'' demo_bug),
                      to_item DocRow doc (include_own ''a'' demo_doc),
                      to_item SnippetRow snippet (include_own ''a'' demo_snippet)],
             total = 3, page = 1, hasMore = False\<rparr>"
  by (simp add: getFeed_def or_default_def demo_sorted slice_def)

lemma demo_feed_page_minus_1:
  "getFeed ''a'' (Some (- 1)) None 5000 demo_world
     = Json \<lparr>data = [], total = 3, page = - 1, hasMore = True\<rparr>"
  by (simp add: getFeed_def or_default_def demo_sorted slice_def)

lemma tie_sorted:
  "sorted_feedItems ''a'' 10 5000 tie_world
     = Resolved [to_item SnippetRow snippet (include_own ''a'' tie_snippet),
                 to_item BugRow bug (include_own ''a'' demo_bug)]"
proof -
  have f: "follow_findMany (\<lambda>f. followerId f = ''a'') tie_world
             = Resolved [\<lparr>followerId = ''a'', followingId = ''u''\<rparr>]"
    by (simp add: follow_findMany_def tie_world_def)
  have q: "feed_queries ''a'' [''u'', ''a''] 10 5000 tie_world
     = Resolved ([include_own ''a'' tie_snippet], [], [include_own ''a'' demo_bug])"
    by (simp add: query_defs quotas_at_10 tie_world_def tie_snippet_def demo_bug_def)
  have c: "createdAt (row (include_own ''a'' demo_bug)) = createdAt (row (include_own ''a'' tie_snippet))"
    by (simp add: include_own_def tie_snippet_def demo_bug_def)
  show ?thesis
    by (simp add: sorted_feedItems_def f q feedItems_of_def Array_sort_def newest_first_def
        created_to_item c)
qed

lemma busy_queries:
  "feed_queries ''a'' [''u'', ''a''] (- 5) 5000 busy_world
     = Resolved ([include_own ''a'' (snippet_at ''S3'' 3000),
                  include_own ''a'' (snippet_at ''S2'' 2000),
                  include_own ''a'' (snippet_at ''S1'' 1000)],
                 [include_own ''a'' demo_doc], [])"
  by (simp add: query_defs quotas_at_minus_5 busy_world_def snippet_at_def demo_doc_def)

lemma busy_sorted:
  "sorted_feedItems ''a'' (- 5) 5000 busy_world
     = Resolved [to_item SnippetRow snippet (include_own ''a'' (snippet_at ''S3'' 3000)),
                 to_item SnippetRow snippet (include_own ''a'' (snippet_at ''S2'' 2000)),
                 to_item DocRow doc (include_own ''a'' demo_doc),
                 to_item SnippetRow snippet (include_own ''a'' (snippet_at ''S1'' 1000))]"
proof -
  have f: "follow_findMany (\<lambda>f. followerId f = ''a'') busy_world
             = Resolved [\<lparr>followerId = ''a'', followingId = ''u''\<rparr>]"
    by (simp add: follow_findMany_def busy_world_def)
  have c: "createdAt (row (include_own ''a'' (snippet_at i t))) = t"
    "createdAt (row (include_own ''a'' demo_doc)) = 2000" for i t
    by (simp_all add: include_own_def snippet_at_def demo_doc_def)
  show ?thesis
    by (simp add: sorted_feedItems_def f busy_queries feedItems_of_def Array_sort_def
        newest_first_def created_to_item c)
qed

lemma busy_feed:
  "getFeed ''a'' None (Some (- 5)) 5000 busy_world
     = Json \<lparr>data = [], total = 4, page = 1, hasMore = True\<rparr>"
  by (simp add: getFeed_def or_default_def busy_sorted slice_def)

lemma public_sorted_minus_1: "sorted_feedItems ''c'' (- 1) 5000 public_world = Resolved []"
  by (simp add: sorted_feedItems_def follow_findMany_def query_defs quotas_at_minus_1
      feedItems_of_def Array_sort_def public_world_def snippet_at_def Let_def)

lemma public_sorted_10_19:
  "sorted_feedItems ''c'' 10000000000000000000 5000 public_world = Resolved []"
  by (simp add: sorted_feedItems_def follow_findMany_def query_defs quotas_at_10_19
      feedItems_of_def Array_sort_def public_world_def snippet_at_def Let_def)

lemma public_query_minus_1:
  "snippet_findMany isPublic include_counts (- 1) 0 public_world
     = Resolved [include_counts (snippet_at ''S1'' 1000)]"
  by (simp add: snippet_findMany_def findMany_def paginate_def fits_int64_def public_world_def
      snippet_at_def)

lemma public_query_10_19:
  "snippet_findMany isPublic include_counts 10000000000000000000 0 public_world
     = Rejected StoreFailure"
  by (simp add: snippet_findMany_def fits_int64_def)

lemma public_feed_minus_1:
  "getFeed ''c'' None (Some (- 1)) 5000 public_world
     = Json \<lparr>data = [to_public_item (include_counts (snippet_at ''S1'' 1000))],
             total = 1, page = 1, hasMore = False\<rparr>"
  by (simp add: getFeed_def or_default_def public_sorted_minus_1 public_query_minus_1 Let_def)

lemma public_feed_10_19:
  "getFeed ''c'' None (Some 10000000000000000000) 5000 public_world = Status500"
  by (simp add: getFeed_def or_default_def public_sorted_10_19 public_query_10_19 Let_def)

section \<open>Quotas and totals\<close>

text \<open>
  Claim C6 (as amended: for a page size \<open>0 < limit < 2 ^ 53\<close>).  The three candidate
  queries of \<open>getFeed\<close> are made with \<^verbatim>\<open>take\<close> at most the exact ceilings of
  \<open>7 limit / 10\<close>, \<open>2 limit / 10\<close> and \<open>limit / 10\<close> (the binary64 products of the
  source never round above them in this range), and equal to them for
  \<open>limit < 2 ^ 49\<close>.  The queries return at most \<^verbatim>\<open>take\<close> rows, hence at most that many
  snippets, docs and bugs; for \<open>limit = 10\<close> the quotas are 7, 2 and 1.
\<close>

theorem feed_query_quotas:
  assumes "feed_queries userId followingIds limit now w = Resolved (ss, ds, bs)"
    and "0 < limit" and "limit < 2 ^ 53"
  shows "Math_ceil (js_times limit lit_0_7) \<le> \<lceil>of_int (7 * limit) / (10::rat)\<rceil>
       \<and> Math_ceil (js_times limit lit_0_2) \<le> \<lceil>of_int (2 * limit) / (10::rat)\<rceil>
       \<and> Math_ceil (js_times limit lit_0_1) \<le> \<lceil>of_int limit / (10::rat)\<rceil>
       \<and> (limit < 2 ^ 49 \<longrightarrow>
            Math_ceil (js_times limit lit_0_7) = \<lceil>of_int (7 * limit) / (10::rat)\<rceil>
          \<and> Math_ceil (js_times limit lit_0_2) = \<lceil>of_int (2 * limit) / (10::rat)\<rceil>
          \<and> Math_ceil (js_times limit lit_0_1) = \<lceil>of_int limit / (10::rat)\<rceil>)
       \<and> int (length ss) \<le> Math_ceil (js_times limit lit_0_7)
       \<and> int (length ds) \<le> Math_ceil (js_times limit lit_0_2)
       \<and> int (length bs) \<le> Math_ceil (js_times limit lit_0_1)
       \<and> int (length ss) \<le> \<lceil>of_int (7 * limit) / (10::rat)\<rceil>
       \<and> int (length ds) \<le> \<lceil>of_int (2 * limit) / (10::rat)\<rceil>
       \<and> int (length bs) \<le> \<lceil>of_int limit / (10::rat)\<rceil>
       \<and> (limit = 10 \<longrightarrow>
            Math_ceil (js_times limit lit_0_7) = 7 \<and> Math_ceil (js_times limit lit_0_2) = 2
          \<and> Math_ceil (js_times limit lit_0_1) = 1
          \<and> length ss \<le> 7 \<and> length ds \<le> 2 \<and> length bs \<le> 1)"
proof -
  have le: "Math_ceil (js_times limit lit_0_7) \<le> \<lceil>of_int (7 * limit) / (10::rat)\<rceil>"
      "Math_ceil (js_times limit lit_0_2) \<le> \<lceil>of_int (2 * limit) / (10::rat)\<rceil>"
      "Math_ceil (js_times limit lit_0_1) \<le> \<lceil>of_int limit / (10::rat)\<rceil>"
    unfolding ceiling_tenths
    using quota_0_7_le[OF assms(2,3)] quota_0_2_le[OF assms(2,3)] quota_0_1_le[OF assms(2,3)]
    by simp_all
  have eq: "Math_ceil (js_times limit lit_0_7) = \<lceil>of_int (7 * limit) / (10::rat)\<rceil>
          \<and> Math_ceil (js_times limit lit_0_2) = \<lceil>of_int (2 * limit) / (10::rat)\<rceil>
          \<and> Math_ceil (js_times limit lit_0_1) = \<lceil>of_int limit / (10::rat)\<rceil>"
    if "limit < 2 ^ 49"
    unfolding ceiling_tenths
    using quota_0_7[OF assms(2) that] quota_0_2[OF assms(2) that] quota_0_1[OF assms(2) that]
    by simp
  note tk = feed_queries_within_take[OF assms(1,2)]
  have len: "int (length ss) \<le> \<lceil>of_int (7 * limit) / (10::rat)\<rceil>"
      "int (length ds) \<le> \<lceil>of_int (2 * limit) / (10::rat)\<rceil>"
      "int (length bs) \<le> \<lceil>of_int limit / (10::rat)\<rceil>"
    using tk le by linarith+
  have ten: "Math_ceil (js_times limit lit_0_7) = 7 \<and> Math_ceil (js_times limit lit_0_2) = 2
          \<and> Math_ceil (js_times limit lit_0_1) = 1
          \<and> length ss \<le> 7 \<and> length ds \<le> 2 \<and> length bs \<le> 1"
    if "limit = 10"
  proof -
    have "limit < 2 ^ 49" using that by simp
    from eq[OF this] have "Math_ceil (js_times limit lit_0_7) = 7"
        "Math_ceil (js_times limit lit_0_2) = 2" "Math_ceil (js_times limit lit_0_1) = 1"
      unfolding ceiling_tenths using that by simp_all
    then show ?thesis using tk by simp
  qed
  show ?thesis using le eq tk len ten by blast
qed

text \<open>
  The quotas at the default page size, on the example store.
\<close>

theorem feed_query_quotas_witness:
  "feed_queries ''a'' [''u'', ''a''] 10 5000 demo_world
     = Resolved ([include_own ''a'' demo_snippet], [include_own ''a'' demo_doc],
                 [include_own ''a'' demo_bug])
   \<and> Math_ceil (js_times 10 lit_0_7) = 7 \<and> Math_ceil (js_times 10 lit_0_2) = 2
   \<and> Math_ceil (js_times 10 lit_0_1) = 1
   \<and> length [include_own ''a'' demo_snippet] \<le> 7
   \<and> length [include_own ''a'' demo_doc] \<le> 2
   \<and> length [include_own ''a'' demo_bug] \<le> 1"
proof -
  have h: "(0::int) < 10" "(10::int) < 2 ^ 53" by simp_all
  have "(10::int) = 10 \<longrightarrow>
            Math_ceil (js_times 10 lit_0_7) = 7 \<and> Math_ceil (js_times 10 lit_0_2) = 2
          \<and> Math_ceil (js_times 10 lit_0_1) = 1
          \<and> length [include_own ''a'' demo_snippet] \<le> 7
          \<and> length [include_own ''a'' demo_doc] \<le> 2 \<and> length [include_own ''a'' demo_bug] \<le> 1"
    using feed_query_quotas[OF demo_queries h] by (elim conjE)
  then show ?thesis using demo_queries by simp
qed

text \<open>
  Claim C6 as stated, for every request, fails.  With \<^verbatim>\<open>limit=-5\<close> the quotas are
  \<open>- 3\<close>, \<open>- 1\<close> and \<open>0\<close>; a negative \<^verbatim>\<open>take\<close> selects from the end, so the follower \<open>a\<close>
  of the store with four snippets gets three snippet rows and one doc row, more than
  the ceilings \<open>- 3\<close> and \<open>- 1\<close>.  With \<open>limit = 2 ^ 60\<close> the binary64 product
  \<^verbatim>\<open>limit * 0.1\<close> is 115292150460684704, above the exact ceiling 115292150460684698.
\<close>

theorem quota_negative_limit_counterexample:
  "feed_queries ''a'' [''u'', ''a''] (- 5) 5000 busy_world
     = Resolved ([include_own ''a'' (snippet_at ''S3'' 3000),
                  include_own ''a'' (snippet_at ''S2'' 2000),
                  include_own ''a'' (snippet_at ''S1'' 1000)],
                 [include_own ''a'' demo_doc], [])
   \<and> Math_ceil (js_times (- 5) lit_0_7) = - 3
   \<and> \<lceil>of_int (7 * (- 5)) / (10::rat)\<rceil> = - 3
   \<and> \<not> int (length [include_own ''a'' (snippet_at ''S3'' 3000),
                      include_own ''a'' (snippet_at ''S2'' 2000),
                      include_own ''a'' (snippet_at ''S1'' 1000)])
         \<le> \<lceil>of_int (7 * (- 5)) / (10::rat)\<rceil>
   \<and> \<lceil>of_int (2 * (- 5)) / (10::rat)\<rceil> = - 1
   \<and> \<not> int (length [include_own ''a'' demo_doc]) \<le> \<lceil>of_int (2 * (- 5)) / (10::rat)\<rceil>
   \<and> Math_ceil (js_times 1152921504606846976 lit_0_1) = 115292150460684704
   \<and> \<lceil>of_int 1152921504606846976 / (10::rat)\<rceil> = 115292150460684698
   \<and> \<not> Math_ceil (js_times 1152921504606846976 lit_0_1)
         \<le> \<lceil>of_int 1152921504606846976 / (10::rat)\<rceil>"
  unfolding ceiling_tenths busy_queries quotas_at_minus_5 quota_at_2_60 by simp

text \<open>
  Claim C10 (as amended: for a page size \<open>0 < limit < 2 ^ 53\<close> and, where pages are
  concerned, a page number of at least 1).  The sorted array \<open>feedItems\<close> has at most
  \<open>\<lceil>7 limit / 10\<rceil> + \<lceil>2 limit / 10\<rceil> + \<lceil>limit / 10\<rceil>\<close> elements, and this length is the
  total the personalised reply reports.  For \<open>limit = 10\<close> and a page number of at
  least 1 the personalised reply has \<open>hasMore = False\<close>, and from page 2 on the reply is
  personalised, with no items.
\<close>

theorem feed_total_bound:
  assumes "sorted_feedItems userId (or_default limit_query 10) now w = Resolved merged"
    and "0 < or_default limit_query 10" and "or_default limit_query 10 < 2 ^ 53"
  shows "int (length merged)
           \<le> \<lceil>of_int (7 * or_default limit_query 10) / (10::rat)\<rceil>
             + \<lceil>of_int (2 * or_default limit_query 10) / (10::rat)\<rceil>
             + \<lceil>of_int (or_default limit_query 10) / (10::rat)\<rceil>
       \<and> (\<not> (merged = [] \<and> or_default page_query 1 = 1) \<longrightarrow>
            (\<exists>r. getFeed userId page_query limit_query now w = Json r \<and> total r = length merged))
       \<and> (or_default limit_query 10 = 10 \<and> 1 \<le> or_default page_query 1
            \<and> \<not> (merged = [] \<and> or_default page_query 1 = 1) \<longrightarrow>
            (\<exists>r. getFeed userId page_query limit_query now w = Json r \<and> hasMore r = False))
       \<and> (or_default limit_query 10 = 10 \<and> 2 \<le> or_default page_query 1 \<longrightarrow>
            (\<exists>r. getFeed userId page_query limit_query now w = Json r
                 \<and> data r = [] \<and> hasMore r = False))"
proof -
  let ?L = "or_default limit_query 10" and ?P = "or_default page_query 1"
  have len: "int (length merged) \<le> (7 * ?L + 9) div 10 + (2 * ?L + 9) div 10 + (?L + 9) div 10"
    using assms by (rule merged_length)
  have A: "int (length merged) \<le> \<lceil>of_int (7 * ?L) / (10::rat)\<rceil>
             + \<lceil>of_int (2 * ?L) / (10::rat)\<rceil> + \<lceil>of_int ?L / (10::rat)\<rceil>"
    using len unfolding ceiling_tenths .
  have B: "\<exists>r. getFeed userId page_query limit_query now w = Json r \<and> total r = length merged"
    if "\<not> (merged = [] \<and> ?P = 1)"
    using getFeed_personalised[OF assms(1) that] by simp
  have ten: "length merged \<le> 10" if "?L = 10" using len that by simp
  have C: "\<exists>r. getFeed userId page_query limit_query now w = Json r \<and> hasMore r = False"
    if "?L = 10" "1 \<le> ?P" "\<not> (merged = [] \<and> ?P = 1)"
  proof -
    have "int (length merged) \<le> (?P - 1) * ?L + ?L" using ten[OF that(1)] that(1,2) by simp
    then show ?thesis using getFeed_personalised[OF assms(1) that(3)] by simp
  qed
  have D: "\<exists>r. getFeed userId page_query limit_query now w = Json r \<and> data r = [] \<and> hasMore r = False"
    if "?L = 10" "2 \<le> ?P"
  proof -
    have np: "\<not> (merged = [] \<and> ?P = 1)" using that(2) by simp
    have sk: "int (length merged) \<le> (?P - 1) * ?L" using ten[OF that(1)] that by simp
    have "slice ((?P - 1) * ?L) ((?P - 1) * ?L + ?L) merged
            = take (nat ?L) (drop (nat ((?P - 1) * ?L)) merged)"
      using that by (intro slice_window) simp_all
    also have "\<dots> = []" using sk by simp
    finally have "slice ((?P - 1) * ?L) ((?P - 1) * ?L + ?L) merged = []" .
    moreover have "\<not> int (length merged) > (?P - 1) * ?L + ?L" using sk that(1) by simp
    ultimately show ?thesis using getFeed_personalised[OF assms(1) np] by simp
  qed
  show ?thesis using A B C D by blast
qed

text \<open>
  Page 2 of the example feed at the default page size: no items, no more pages.
\<close>

theorem feed_total_bound_witness:
  "\<exists>r. getFeed ''a'' (Some 2) None 5000 demo_world = Json r \<and> data r = [] \<and> hasMore r = False"
proof -
  have m: "sorted_feedItems ''a'' (or_default None 10) 5000 demo_world
     = Resolved [to_item BugRow bug (include_own ''a'' demo_bug),
                 to_item DocRow doc (include_own ''a'' demo_doc),
                 to_item SnippetRow snippet (include_own ''a'' demo_snippet)]"
    unfolding default_limit by (rule demo_sorted)
  have h: "0 < or_default None 10" "or_default None 10 < 2 ^ 53"
    by (simp_all add: default_limit)
  show ?thesis
    using feed_total_bound[OF m h, of "Some 2"]
    by (simp add: default_limit or_default_def)
qed

text \<open>
  Claim C10 as stated, for every request, fails.  With \<^verbatim>\<open>limit=-5\<close> the follower \<open>a\<close> of
  the store with four snippets is told a total of 4, while the three ceilings add up to
  \<open>- 4\<close>.  With the default page size and \<^verbatim>\<open>page=-1\<close> the personalised reply of the
  example store has \<open>hasMore = True\<close>.
\<close>

theorem total_negative_limit_counterexample:
  "getFeed ''a'' None (Some (- 5)) 5000 busy_world
     = Json \<lparr>data = [], total = 4, page = 1, hasMore = True\<rparr>
   \<and> \<lceil>of_int (7 * (- 5)) / (10::rat)\<rceil> + \<lceil>of_int (2 * (- 5)) / (10::rat)\<rceil>
       + \<lceil>of_int (- 5) / (10::rat)\<rceil> = - 4
   \<and> getFeed ''a'' (Some (- 1)) None 5000 demo_world
       = Json \<lparr>data = [], total = 3, page = - 1, hasMore = True\<rparr>"
  unfolding ceiling_tenths busy_feed demo_feed_page_minus_1 by simp

section \<open>Merge order\<close>

text \<open>
  Claim C1 (as amended: ties keep the insertion order).  Let the three candidate queries
  of a request return \<open>ss\<close>, \<open>ds\<close>, \<open>bs\<close>.  The array \<open>feedItems\<close> is their concatenation,
  snippets first, then docs, then bugs, each item tagged with its kind, sorted stably by
  \<open>createdAt\<close> descending: it is a permutation of the concatenation, its \<open>createdAt\<close> values
  never increase, and the items of any one \<open>createdAt\<close> stand in the order they have in the
  concatenation (snippets before docs before bugs).  The personalised reply is the slice
  \<open>[skip, skip + limit)\<close> of this sorted array, which for a page number of at least 1 and a
  positive page size is \<open>take limit (drop skip feedItems)\<close>; the queries themselves do not
  depend on the page.  When the queries return one snippet, one doc and one bug with
  increasing \<open>createdAt\<close>, the sorted array is bug, doc, snippet, and so is page 1 for
  a page size of at least 3.
\<close>

theorem feed_merge_order:
  fixes ss ds :: "PublicContent selected list" and bs :: "Bug selected list"
  defines "cat \<equiv> map (to_item SnippetRow snippet) ss @ map (to_item DocRow doc) ds
                   @ map (to_item BugRow bug) bs"
  defines "merged \<equiv> Array_sort newest_first cat"
  assumes "feed_queries userId
             (map followingId (filter (\<lambda>f. followerId f = userId) (follows w)) @ [userId])
             (or_default limit_query 10) now w = Resolved (ss, ds, bs)"
  shows "sorted_feedItems userId (or_default limit_query 10) now w = Resolved merged
       \<and> map type cat
           = replicate (length ss) snippet @ replicate (length ds) doc @ replicate (length bs) bug
       \<and> mset merged = mset cat
       \<and> sorted_wrt (\<lambda>a b. item_createdAt a \<ge> item_createdAt b) merged
       \<and> (\<forall>t. filter (\<lambda>i. item_createdAt i = t) merged = filter (\<lambda>i. item_createdAt i = t) cat)
       \<and> (\<not> (merged = [] \<and> or_default page_query 1 = 1) \<longrightarrow>
            getFeed userId page_query limit_query now w =
              Json \<lparr>data = slice ((or_default page_query 1 - 1) * or_default limit_query 10)
                             ((or_default page_query 1 - 1) * or_default limit_query 10
                                + or_default limit_query 10) merged,
                    total = length merged, page = or_default page_query 1,
                    hasMore = (int (length merged)
                                 > (or_default page_query 1 - 1) * or_default limit_query 10
                                     + or_default limit_query 10)\<rparr>)
       \<and> (1 \<le> or_default page_query 1 \<and> 0 < or_default limit_query 10 \<longrightarrow>
            slice ((or_default page_query 1 - 1) * or_default limit_query 10)
                  ((or_default page_query 1 - 1) * or_default limit_query 10
                     + or_default limit_query 10) merged
              = take (nat (or_default limit_query 10))
                  (drop (nat ((or_default page_query 1 - 1) * or_default limit_query 10)) merged))
       \<and> (\<forall>s d b. ss = [s] \<and> ds = [d] \<and> bs = [b]
              \<and> createdAt (row s) < createdAt (row d) \<and> createdAt (row d) < createdAt (row b) \<longrightarrow>
            merged = [to_item BugRow bug b, to_item DocRow doc d, to_item SnippetRow snippet s]
            \<and> (or_default page_query 1 = 1 \<and> 3 \<le> or_default limit_query 10 \<longrightarrow>
                 getFeed userId page_query limit_query now w =
                   Json \<lparr>data = [to_item BugRow bug b, to_item DocRow doc d,
                                  to_item SnippetRow snippet s],
                         total = 3, page = 1, hasMore = False\<rparr>))"
proof -
  have m: "sorted_feedItems userId (or_default limit_query 10) now w = Resolved merged"
    unfolding sorted_feedItems_of_queries[OF assms(3)]
    by (simp add: merged_def cat_def feedItems_of_def)
  have tags: "map type cat
           = replicate (length ss) snippet @ replicate (length ds) doc @ replicate (length bs) bug"
    by (simp add: cat_def comp_def type_to_item map_replicate_const)
  have perm: "mset merged = mset cat" unfolding merged_def by (rule mset_Array_sort)
  have desc: "sorted_wrt (\<lambda>a b. item_createdAt a \<ge> item_createdAt b) merged"
    unfolding merged_def by (rule Array_sort_descending)
  have stable: "\<forall>t. filter (\<lambda>i. item_createdAt i = t) merged = filter (\<lambda>i. item_createdAt i = t) cat"
    unfolding merged_def by (simp only: Array_sort_stable simp_thms)
  have reply: "\<not> (merged = [] \<and> or_default page_query 1 = 1) \<longrightarrow>
            getFeed userId page_query limit_query now w =
              Json \<lparr>data = slice ((or_default page_query 1 - 1) * or_default limit_query 10)
                             ((or_default page_query 1 - 1) * or_default limit_query 10
                                + or_default limit_query 10) merged,
                    total = length merged, page = or_default page_query 1,
                    hasMore = (int (length merged)
                                 > (or_default page_query 1 - 1) * or_default limit_query 10
                                     + or_default limit_query 10)\<rparr>"
    using getFeed_personalised[OF m] by blast
  have window: "1 \<le> or_default page_query 1 \<and> 0 < or_default limit_query 10 \<longrightarrow>
            slice ((or_default page_query 1 - 1) * or_default limit_query 10)
                  ((or_default page_query 1 - 1) * or_default limit_query 10
                     + or_default limit_query 10) merged
              = take (nat (or_default limit_query 10))
                  (drop (nat ((or_default page_query 1 - 1) * or_default limit_query 10)) merged)"
    by (auto intro!: slice_window)
  have three: "\<forall>s d b. ss = [s] \<and> ds = [d] \<and> bs = [b]
              \<and> createdAt (row s) < createdAt (row d) \<and> createdAt (row d) < createdAt (row b) \<longrightarrow>
            merged = [to_item BugRow bug b, to_item DocRow doc d, to_item SnippetRow snippet s]
            \<and> (or_default page_query 1 = 1 \<and> 3 \<le> or_default limit_query 10 \<longrightarrow>
                 getFeed userId page_query limit_query now w =
                   Json \<lparr>data = [to_item BugRow bug b, to_item DocRow doc d,
                                  to_item SnippetRow snippet s],
                         total = 3, page = 1, hasMore = False\<rparr>)"
  proof (intro allI impI, elim conjE)
    fix s d b
    assume one: "ss = [s]" "ds = [d]" "bs = [b]"
      and inc: "createdAt (row s) < createdAt (row d)" "createdAt (row d) < createdAt (row b)"
    have mm: "merged = [to_item BugRow bug b, to_item DocRow doc d, to_item SnippetRow snippet s]"
      using inc by (simp add: merged_def cat_def one three_newest_first)
    have "getFeed userId page_query limit_query now w =
            Json \<lparr>data = [to_item BugRow bug b, to_item DocRow doc d,
                           to_item SnippetRow snippet s],
                  total = 3, page = 1, hasMore = False\<rparr>"
      if "or_default page_query 1 = 1" "3 \<le> or_default limit_query 10"
      using getFeed_personalised[OF m, of page_query] that by (simp add: mm slice_def)
    then show "merged = [to_item BugRow bug b, to_item DocRow doc d, to_item SnippetRow snippet s]
            \<and> (or_default page_query 1 = 1 \<and> 3 \<le> or_default limit_query 10 \<longrightarrow>
                 getFeed userId page_query limit_query now w =
                   Json \<lparr>data = [to_item BugRow bug b, to_item DocRow doc d,
                                  to_item SnippetRow snippet s],
                         total = 3, page = 1, hasMore = False\<rparr>)"
      using mm by blast
  qed
  show ?thesis using m tags perm desc stable reply window three by blast
qed

text \<open>
  The example store: snippet \<open>S1\<close>, doc \<open>D1\<close> and bug \<open>B1\<close> of the followed author \<open>u\<close>,
  created at 1000, 2000 and 3000, are returned to the follower \<open>a\<close> as \<open>B1\<close>, \<open>D1\<close>, \<open>S1\<close>.
\<close>

theorem feed_merge_order_witness:
  "getFeed ''a'' None None 5000 demo_world
     = Json \<lparr>data = [to_item BugRow bug (include_own ''a'' demo_bug),
                      to_item DocRow doc (include_own ''a'' demo_doc),
                      to_item SnippetRow snippet (include_own ''a'' demo_snippet)],
             total = 3, page = 1, hasMore = False\<rparr>"
proof -
  have q: "feed_queries ''a''
             (map followingId (filter (\<lambda>f. followerId f = ''a'') (follows demo_world)) @ [''a''])
             (or_default None 10) 5000 demo_world
           = Resolved ([include_own ''a'' demo_snippet], [include_own ''a'' demo_doc],
                       [include_own ''a'' demo_bug])"
    unfolding demo_followingIds default_limit by (rule demo_queries)
  have c: "createdAt (row (include_own ''a'' demo_snippet)) < createdAt (row (include_own ''a'' demo_doc))"
     "createdAt (row (include_own ''a'' demo_doc)) < createdAt (row (include_own ''a'' demo_bug))"
    by (simp_all add: include_own_def demo_snippet_def demo_doc_def demo_bug_def)
  show ?thesis
    using feed_merge_order[OF q, of None] c
    by (simp add: default_limit default_page slice_def)
qed

text \<open>
  Claim C1 as stated fails where it says that ties are broken by reverse insertion order:
  a snippet and a bug of a followed author with the same \<open>createdAt\<close> are returned snippet
  first, the order of the concatenation, and not bug first.
\<close>

theorem feed_tie_order_counterexample:
  "getFeed ''a'' None None 5000 tie_world
     = Json \<lparr>data = [to_item SnippetRow snippet (include_own ''a'' tie_snippet),
                      to_item BugRow bug (include_own ''a'' demo_bug)],
             total = 2, page = 1, hasMore = False\<rparr>
   \<and> item_createdAt (to_item SnippetRow snippet (include_own ''a'' tie_snippet))
       = item_createdAt (to_item BugRow bug (include_own ''a'' demo_bug))
   \<and> getFeed ''a'' None None 5000 tie_world
       \<noteq> Json \<lparr>data = [to_item BugRow bug (include_own ''a'' demo_bug),
                        to_item SnippetRow snippet (include_own ''a'' tie_snippet)],
               total = 2, page = 1, hasMore = False\<rparr>"
proof -
  have g: "getFeed ''a'' None None 5000 tie_world
     = Json \<lparr>data = [to_item SnippetRow snippet (include_own ''a'' tie_snippet),
                      to_item BugRow bug (include_own ''a'' demo_bug)],
             total = 2, page = 1, hasMore = False\<rparr>"
    by (simp add: getFeed_def or_default_def tie_sorted slice_def)
  have t: "item_createdAt (to_item SnippetRow snippet (include_own ''a'' tie_snippet))
       = item_createdAt (to_item BugRow bug (include_own ''a'' demo_bug))"
    by (simp add: created_to_item include_own_def tie_snippet_def demo_bug_def)
  have d: "to_item SnippetRow snippet (include_own ''a'' tie_snippet)
             \<noteq> to_item BugRow bug (include_own ''a'' demo_bug)"
    by (simp add: to_item_def)
  show ?thesis using t d unfolding g by simp
qed

section \<open>Public fallback and active bugs\<close>

text \<open>
  Claim C5 (as amended: for a page size \<open>0 < limit < 2 ^ 53\<close>).  When the sorted array
  \<open>feedItems\<close> of a request is empty and the page number is 1, the reply holds public
  snippets of the whole store, whatever the follow rows: \<open>min limit n\<close> of the \<open>n\<close> public
  snippets, in descending order of \<open>createdAt\<close>, and no public snippet left out is newer
  than one returned (which rows of equal \<open>createdAt\<close> are returned is the store's
  choice); every item is tagged \<open>snippet\<close> and has neither \<open>isLiked\<close> nor
  \<open>isBookmarked\<close>; and the list is not empty as soon as one public snippet exists.  A
  viewer who follows nobody and owns no snippet, doc or bug has an empty \<open>feedItems\<close>
  when the store answers.
\<close>

theorem feed_public_fallback:
  assumes "0 < or_default limit_query 10" and "or_default limit_query 10 < 2 ^ 53"
  shows "(sorted_feedItems userId (or_default limit_query 10) now w = Resolved []
          \<and> or_default page_query 1 = 1 \<longrightarrow>
          (\<exists>r rows. getFeed userId page_query limit_query now w = Json r
             \<and> map entity (data r) = map SnippetRow rows
             \<and> total r = length rows \<and> page r = 1
             \<and> mset rows \<subseteq># mset (filter isPublic (snippets w))
             \<and> length rows = min (nat (or_default limit_query 10))
                                  (length (filter isPublic (snippets w)))
             \<and> sorted_wrt (\<lambda>a b. createdAt a \<ge> createdAt b) rows
             \<and> (\<forall>x \<in> set rows. \<forall>y \<in># mset (filter isPublic (snippets w)) - mset rows.
                    createdAt y \<le> createdAt x)
             \<and> (\<forall>i \<in> set (data r). type i = snippet \<and> isLiked i = None \<and> isBookmarked i = None)
             \<and> ((\<exists>s \<in> set (snippets w). isPublic s) \<longrightarrow> data r \<noteq> [])))
       \<and> (store_ok w
          \<and> (\<forall>f \<in> set (follows w). followerId f \<noteq> userId)
          \<and> (\<forall>r \<in> set (snippets w). authorId r \<noteq> userId)
          \<and> (\<forall>r \<in> set (docs w). authorId r \<noteq> userId)
          \<and> (\<forall>r \<in> set (bugs w). authorId r \<noteq> userId) \<longrightarrow>
          sorted_feedItems userId (or_default limit_query 10) now w = Resolved [])"
proof -
  let ?L = "or_default limit_query 10"
  let ?pub = "filter isPublic (snippets w)"
  let ?rows = "findMany isPublic (tie_rank w) ?L 0 (snippets w)"
  let ?r = "\<lparr>data = map to_public_item (map include_counts ?rows), total = length ?rows, page = 1,
             hasMore = (int (length ?rows) = ?L)\<rparr>"
  have fits: "fits_int64 ?L" using assms by (simp add: fits_int64_def)
  have "0 \<le> ?L" using assms(1) by simp
  then obtain S where S: "mset S = mset ?pub"
    and sorted: "sorted_wrt (\<lambda>a b. createdAt a \<ge> createdAt b) S"
    and rows: "?rows = take (nat ?L) S"
    by (rule findMany_take)
  have lenS: "length S = length ?pub" using S by (rule mset_eq_length)
  note t = take_newest[OF sorted, of "nat ?L", folded rows, unfolded S lenS]
  have first: "\<exists>r rows. getFeed userId page_query limit_query now w = Json r
             \<and> map entity (data r) = map SnippetRow rows
             \<and> total r = length rows \<and> page r = 1
             \<and> mset rows \<subseteq># mset ?pub
             \<and> length rows = min (nat ?L) (length ?pub)
             \<and> sorted_wrt (\<lambda>a b. createdAt a \<ge> createdAt b) rows
             \<and> (\<forall>x \<in> set rows. \<forall>y \<in># mset ?pub - mset rows. createdAt y \<le> createdAt x)
             \<and> (\<forall>i \<in> set (data r). type i = snippet \<and> isLiked i = None \<and> isBookmarked i = None)
             \<and> ((\<exists>s \<in> set (snippets w). isPublic s) \<longrightarrow> data r \<noteq> [])"
    if e: "sorted_feedItems userId ?L now w = Resolved []" and p: "or_default page_query 1 = 1"
  proof -
    have g: "getFeed userId page_query limit_query now w = Json ?r"
      using e p fits by (rule getFeed_public)
    have ent: "map entity (data ?r) = map SnippetRow ?rows"
      by (simp add: comp_def entity_public_item)
    have tot: "total ?r = length ?rows \<and> page ?r = 1" by simp
    have flags: "\<forall>i \<in> set (data ?r). type i = snippet \<and> isLiked i = None \<and> isBookmarked i = None"
      by (auto simp: to_public_item_def)
    have ne: "(\<exists>s \<in> set (snippets w). isPublic s) \<longrightarrow> data ?r \<noteq> []"
    proof
      assume "\<exists>s \<in> set (snippets w). isPublic s"
      then have "?pub \<noteq> []" by (simp add: filter_empty_conv)
      then have "0 < length ?rows" using t(2) assms(1) by simp
      then show "data ?r \<noteq> []" by simp
    qed
    show ?thesis using g ent tot t flags ne by blast
  qed
  have second: "sorted_feedItems userId ?L now w = Resolved []"
    if "store_ok w" "\<forall>f \<in> set (follows w). followerId f \<noteq> userId"
       "\<forall>r \<in> set (snippets w). authorId r \<noteq> userId"
       "\<forall>r \<in> set (docs w). authorId r \<noteq> userId"
       "\<forall>r \<in> set (bugs w). authorId r \<noteq> userId"
    using that(1) assms that(2-) by (rule new_viewer_feed_empty)
  show ?thesis using first second by blast
qed

text \<open>
  User \<open>c\<close> of the example store follows nobody and owns nothing, and is shown the public
  snippet of \<open>u\<close>.
\<close>

theorem feed_public_fallback_witness:
  "\<exists>r. getFeed ''c'' None None 5000 demo_world = Json r
       \<and> map entity (data r) = [SnippetRow demo_snippet]"
proof -
  have pub: "filter isPublic (snippets demo_world) = [demo_snippet]"
    by (simp add: demo_world_def demo_snippet_def)
  have new: "store_ok demo_world
          \<and> (\<forall>f \<in> set (follows demo_world). followerId f \<noteq> ''c'')
          \<and> (\<forall>r \<in> set (snippets demo_world). authorId r \<noteq> ''c'')
          \<and> (\<forall>r \<in> set (docs demo_world). authorId r \<noteq> ''c'')
          \<and> (\<forall>r \<in> set (bugs demo_world). authorId r \<noteq> ''c'')"
    by (simp add: demo_world_def demo_snippet_def demo_doc_def demo_bug_def expired_bug_def)
  have h: "0 < or_default None 10" "or_default None 10 < 2 ^ 53"
    by (simp_all add: default_limit)
  note t = feed_public_fallback[OF h, of "''c''" 5000 demo_world None]
  have e: "sorted_feedItems ''c'' (or_default None 10) 5000 demo_world = Resolved []"
    using t new by blast
  obtain r rows where g: "getFeed ''c'' None None 5000 demo_world = Json r"
    and ent: "map entity (data r) = map SnippetRow rows"
    and sub: "mset rows \<subseteq># mset (filter isPublic (snippets demo_world))"
    and len: "length rows = min (nat (or_default None 10))
                               (length (filter isPublic (snippets demo_world)))"
    using t e default_page by blast
  have "length rows = 1" using len by (simp add: pub default_limit)
  then obtain x where x: "rows = [x]" by (cases rows) auto
  have "x = demo_snippet" using sub unfolding pub x by simp
  then show ?thesis using g ent x by simp
qed

text \<open>
  Claim C5 as stated, for every request, fails.  With \<^verbatim>\<open>limit=-1\<close> user \<open>c\<close>, who follows
  nobody, is shown the oldest public snippet \<open>S1\<close> and not the more recent \<open>S2\<close>.  With
  \<^verbatim>\<open>limit=10000000000000000000\<close> the three candidate queries are answered, the sorted
  array is empty, and the fallback query is refused, its \<^verbatim>\<open>take\<close> not fitting a signed
  64-bit integer: the reply is status 500 and not a list of snippets.
\<close>

theorem fallback_negative_limit_counterexample:
  "sorted_feedItems ''c'' (- 1) 5000 public_world = Resolved []
   \<and> getFeed ''c'' None (Some (- 1)) 5000 public_world
       = Json \<lparr>data = [to_public_item (include_counts (snippet_at ''S1'' 1000))],
               total = 1, page = 1, hasMore = False\<rparr>
   \<and> snippet_at ''S2'' 2000 \<in> set (filter isPublic (snippets public_world))
   \<and> createdAt (snippet_at ''S1'' 1000) < createdAt (snippet_at ''S2'' 2000)
   \<and> sorted_feedItems ''c'' 10000000000000000000 5000 public_world = Resolved []
   \<and> getFeed ''c'' None (Some 10000000000000000000) 5000 public_world = Status500"
  unfolding public_sorted_minus_1 public_feed_minus_1 public_sorted_10_19 public_feed_10_19
  by (simp add: public_world_def snippet_at_def)

text \<open>
  Claim C8.  Every item of a reply of \<open>getFeed\<close> that is tagged \<open>bug\<close>, or that carries a
  bug row, carries a row of the bug table whose \<open>expiresAt\<close> is later than the time of the
  request: an expired bug still in the table is never returned.
\<close>

theorem feed_bugs_unexpired:
  assumes "getFeed userId page_query limit_query now w = Json r"
  shows "\<forall>i \<in> set (data r). type i = bug \<or> (\<exists>b. entity i = BugRow b) \<longrightarrow>
           (\<exists>b \<in> set (bugs w). entity i = BugRow b \<and> now < expiresAt b)"
proof (cases "sorted_feedItems userId (or_default limit_query 10) now w")
  case (Rejected e)
  then show ?thesis using assms by (simp add: getFeed_def Let_def)
next
  case (Resolved merged)
  show ?thesis
  proof (cases "merged = [] \<and> or_default page_query 1 = 1")
    case True
    then have "data r = map to_public_item (map include_counts
                    (findMany isPublic (tie_rank w) (or_default limit_query 10) 0 (snippets w)))"
      using Resolved assms by (intro getFeed_public_data) simp_all
    then show ?thesis by (auto simp: to_public_item_def)
  next
    case False
    have "data r = slice ((or_default page_query 1 - 1) * or_default limit_query 10)
                    ((or_default page_query 1 - 1) * or_default limit_query 10
                       + or_default limit_query 10) merged"
      using getFeed_personalised[OF Resolved False] assms by auto
    then have "set (data r) \<subseteq> set merged" by (simp only: set_slice)
    then show ?thesis using merged_bug[OF Resolved] by blast
  qed
qed

text \<open>
  The example store still holds a bug that expired at 4000; at time 5000 the feed of \<open>a\<close>
  shows the active bug only.
\<close>

theorem feed_bugs_unexpired_witness:
  "(\<exists>b \<in> set (bugs demo_world).
      entity (to_item BugRow bug (include_own ''a'' demo_bug)) = BugRow b \<and> 5000 < expiresAt b)
   \<and> expired_bug \<in> set (bugs demo_world) \<and> expiresAt expired_bug < 5000"
  using feed_bugs_unexpired[OF demo_feed]
  by (simp add: to_item_def demo_world_def expired_bug_def)

end
